theory Spec2Isabelle
  imports Main "HOL-Library.Word" "HOL-Library.Char_ord" "HOL-Library.List_Lexorder"
begin

section \<open>Errors, outcomes and the observable world\<close>

text \<open>
  The command layer of madonctl (package \<open>cmd\<close>: root.go, suggestions.go, and the
  file holding toot.go, timelines.go and status.go) is embedded as state-passing
  functions. Everything a command does beyond returning is made explicit: what it
  writes on standard output and standard error, the calls it makes on the API client
  (in order), and how the process ends (a returned error value, \<open>os.Exit\<close>, a
  run-time panic).
\<close>

text \<open>The error kinds of the rendering subsystem (section 7 of the specification).\<close>

datatype render_error =
    InvalidFormat | MissingTemplate | AmbiguousTemplate | UnknownTheme
  | NoTemplateForKind | TemplateParseError | TemplateEvalError | EncodeError

text \<open>
  Go \<open>error\<close> values: \<open>errors.New\<close>/\<open>errors.Errorf\<close> with the formatted message,
  \<open>errors.Wrap\<close>, an error returned by the API client, and an error of the rendering
  subsystem with its message.
\<close>

datatype error =
    New string
  | Wrap error string
  | Api string
  | RenderError render_error string

text \<open>The method \<open>err.Error()\<close>.\<close>

fun Error :: "error \<Rightarrow> string" where
  "Error (New m) = m"
| "Error (Wrap e m) = m @ '': '' @ Error e"
| "Error (Api m) = m"
| "Error (RenderError k m) = m"

text \<open>
  Identifiers. status.go declares \<open>statusID\<close> as \<open>int64\<close>; suggestions.go and
  toot.go use \<open>madon.ActivityID\<close>, a string. Both reach the same client methods.
\<close>

datatype ID = Int64 "64 word" | ActivityID string

text \<open>
  Go slices: the backing array from the slice's first element (its length is the
  capacity) and the slice's length. The elements of the slice are the first \<open>len\<close>
  elements of the array.
\<close>

datatype 'a slice = Slice (arr: "'a list") (len: nat)

definition cap :: "'a slice \<Rightarrow> nat" where
  "cap s = length (arr s)"

definition elems :: "'a slice \<Rightarrow> 'a list" where
  "elems s = take (len s) (arr s)"

text \<open>A slice as the Go run time keeps it: \<open>len \<le> cap\<close>, and \<open>cap\<close> fits an \<open>int\<close>.\<close>

definition slice_ok :: "'a slice \<Rightarrow> bool" where
  "slice_ok s = (len s \<le> cap s \<and> cap s < 2 ^ 63)"

text \<open>The \<open>nil\<close> slice.\<close>

definition nil_slice :: "'a slice" where
  "nil_slice = Slice [] 0"

text \<open>
  The slice expression \<open>s[:k]\<close> with \<open>k\<close> of type \<open>uint\<close> (64 bits): a run-time
  panic unless \<open>k \<le> cap(s)\<close>.
\<close>

definition slice_to :: "'a slice \<Rightarrow> 64 word \<Rightarrow> string + 'a slice" where
  "slice_to s k =
     (if unat k \<le> cap s then Inr (Slice (arr s) (unat k))
      else Inl ''slice bounds out of range'')"

text \<open>
  The statement that limits the number of results. It is written out four times in
  the source, each time in the same form:
  \<^verbatim>\<open>if opt.keep > 0 && len(l) > int(opt.keep) { l = l[:opt.keep] }\<close>
  (timelineRunE; statusSubcommandRunE for reblogged-by and favourited-by;
  suggestionsGetRunE). \<open>opt.keep\<close> is a \<open>uint\<close>; the conversion \<open>int(opt.keep)\<close>
  reads the same 64 bits as a signed number.
\<close>

definition keep_results :: "64 word \<Rightarrow> 'a slice \<Rightarrow> string + 'a slice" where
  "keep_results k l =
     (if 0 < k \<and> sint k < int (len l) then slice_to l k else Inr l)"

subsection \<open>The records of the API the commands read\<close>

record Account =
  Acct :: string

record Status =
  Visibility :: string
  Account :: Account
  Mentions :: "Account list"
  Content :: string

record LimitParams =
  Limit :: int
  All :: bool
  SinceID :: string
  MaxID :: string

record PostStatusParams =
  Text :: string
  InReplyTo :: string
  MediaIDs :: "string list"
  Sensitive :: bool
  SpoilerText :: string
  Visibility :: string

text \<open>\<open>madon.Context\<close> and \<open>madon.Card\<close> are only passed on to the printer.\<close>

datatype Context = Context string
datatype Card = Card string

text \<open>
  The value held by \<open>var obj interface{}\<close>: a pointer (\<open>None\<close> for the \<open>nil\<close>
  pointer of that type) or a slice. The \<open>nil\<close> interface, which is what
  \<open>obj == nil\<close> tests, is \<open>None\<close> of \<open>obj option\<close>.
\<close>

datatype obj =
    StatusObj "Status option"
  | ContextObj "Context option"
  | CardObj "Card option"
  | AccountList "Account slice"
  | StatusList "Status slice"

subsection \<open>Calls on the outside world\<close>

text \<open>
  Every call a command makes on its collaborators is recorded in order: on the API
  client \<open>gClient\<close>, on \<open>madonInit\<close> (client set-up and login) and \<open>uploadFile\<close>,
  and on the rendering subsystem (\<open>checkOutputFormat\<close>, \<open>getPrinter\<close>, \<open>printObj\<close>).
\<close>

datatype call =
    MadonInit bool
  | ReqGetSuggestions "LimitParams option"
  | ReqDeleteSuggestion ID
  | ReqGetTimelines string bool bool "LimitParams option"
  | ReqGetStatus ID
  | ReqGetStatusContext ID
  | ReqGetStatusCard ID
  | ReqGetStatusRebloggedBy ID "LimitParams option"
  | ReqGetStatusFavouritedBy ID "LimitParams option"
  | ReqDeleteStatus ID
  | ReqUnreblogStatus ID
  | ReqReblogStatus ID
  | ReqUnfavouriteStatus ID
  | ReqFavouriteStatus ID
  | ReqUnpinStatus ID
  | ReqPinStatus ID
  | ReqMuteConversation ID
  | ReqUnmuteConversation ID
  | ReqGetCurrentAccount
  | ReqUploadFile string
  | ReqPostStatus PostStatusParams
  | CallCheckOutputFormat
  | CallGetPrinter
  | CallPrintObj obj

record world =
  stdout :: string
  stderr :: "string list"
  calls :: "call list"

definition world0 :: world where
  "world0 = \<lparr> stdout = [], stderr = [], calls = [] \<rparr>"

definition do_call :: "call \<Rightarrow> world \<Rightarrow> world" where
  "do_call r w = w\<lparr> calls := calls w @ [r] \<rparr>"

text \<open>
  \<open>errPrint\<close> (utils.go, not among the sources at hand) writes one formatted line on
  standard error; the argument is the formatted message.
\<close>

definition errPrint :: "string \<Rightarrow> world \<Rightarrow> world" where
  "errPrint msg w = w\<lparr> stderr := stderr w @ [msg] \<rparr>"

text \<open>
  The line of \<open>errPrint("Error: %s", err.Error())\<close> (in \<open>suggestionsGetRunE\<close> also
  written \<open>errPrint("Error: %v", err)\<close>, the same text).
\<close>

definition error_line :: "error \<Rightarrow> string" where
  "error_line err = ''Error: '' @ Error err"

text \<open>
  How a function of the command layer ends: it returns its \<open>error\<close> result, it ends
  the process with \<open>os.Exit(code)\<close>, or the run time panics.
\<close>

datatype outcome = Returned "error option" | Exited int | Panicked string

text \<open>
  The answers of the API client, as functions of the arguments. A method returning a
  pointer and an error answers with one of the two; a method returning a slice and
  an error answers with both, since the source reads the slice before the error in
  places.
\<close>

record client =
  GetSuggestions :: "LimitParams option \<Rightarrow> Account slice \<times> error option"
  DeleteSuggestion :: "ID \<Rightarrow> error option"
  GetTimelines :: "string \<Rightarrow> bool \<Rightarrow> bool \<Rightarrow> LimitParams option \<Rightarrow> Status slice \<times> error option"
  GetStatus :: "ID \<Rightarrow> error + Status"
  GetStatusContext :: "ID \<Rightarrow> error + Context"
  GetStatusCard :: "ID \<Rightarrow> error + Card"
  GetStatusRebloggedBy :: "ID \<Rightarrow> LimitParams option \<Rightarrow> Account slice \<times> error option"
  GetStatusFavouritedBy :: "ID \<Rightarrow> LimitParams option \<Rightarrow> Account slice \<times> error option"
  DeleteStatus :: "ID \<Rightarrow> error option"
  UnreblogStatus :: "ID \<Rightarrow> error option"
  ReblogStatus :: "ID \<Rightarrow> error option"
  UnfavouriteStatus :: "ID \<Rightarrow> error option"
  FavouriteStatus :: "ID \<Rightarrow> error option"
  UnpinStatus :: "ID \<Rightarrow> error option"
  PinStatus :: "ID \<Rightarrow> error option"
  MuteConversation :: "ID \<Rightarrow> error + Status"
  UnmuteConversation :: "ID \<Rightarrow> error + Status"
  GetCurrentAccount :: "error + Account"
  PostStatus :: "PostStatusParams \<Rightarrow> error + Status"

text \<open>
  A printer is what its method \<open>printObj\<close> does: the text it writes on standard
  output and the error it returns.
\<close>

type_synonym printer = "obj \<Rightarrow> string \<times> error option"

text \<open>
  The helpers of the package that are not among the sources at hand (utils.go) and
  the process environment, taken as parameters: \<open>madonInit\<close>, \<open>getPrinter\<close>,
  \<open>checkOutputFormat\<close>, \<open>splitIDs\<close>, \<open>uploadFile\<close>; the configuration value
  \<open>default_visibility\<close>; whether \<open>--visibility\<close> was given on the command line of
  \<open>toot\<close> and of \<open>status post\<close>; the file system and standard input.
\<close>

record env =
  madonInit :: "bool \<Rightarrow> error option"
  getPrinter :: "error + printer"
  checkOutputFormat :: "error option"
  splitIDs :: "string \<Rightarrow> error + string list"
  uploadFile :: "string \<Rightarrow> error + string"
  default_visibility :: string
  tootVisibilityChanged :: bool
  statusPostVisibilityChanged :: bool
  ReadFile :: "string \<Rightarrow> error + string"
  ReadAllStdin :: "error + string"

definition printObj :: "printer \<Rightarrow> obj \<Rightarrow> world \<Rightarrow> outcome \<times> world" where
  "printObj p ob w =
     (case p ob of
        (text, err) \<Rightarrow>
          (Returned err, (do_call (CallPrintObj ob) w)\<lparr> stdout := stdout w @ text \<rparr>))"

text \<open>
  The end of the three \<open>RunE\<close> functions that print:
  \<^verbatim>\<open>p, err := getPrinter(); if err != nil { errPrint("Error: %s", err.Error());
  os.Exit(1) }; return p.printObj(obj)\<close>
\<close>

definition print_result :: "env \<Rightarrow> obj \<Rightarrow> world \<Rightarrow> outcome \<times> world" where
  "print_result e ob w =
     (let w1 = do_call CallGetPrinter w
      in case getPrinter e of
           Inl err \<Rightarrow> (Exited 1, errPrint (error_line err) w1)
         | Inr p \<Rightarrow> printObj p ob w1)"

section \<open>timelines.go\<close>

record timelineOpts =
  local :: bool
  onlyMedia :: bool
  limit :: "64 word"
  keep :: "64 word"
  sinceID :: string
  maxID :: string

definition timeline_limOpts :: "timelineOpts \<Rightarrow> LimitParams option" where
  "timeline_limOpts opt =
     (if 0 < timelineOpts.limit opt \<or> sinceID opt \<noteq> [] \<or> maxID opt \<noteq> [] then
        Some \<lparr> Limit = (if 0 < timelineOpts.limit opt then sint (timelineOpts.limit opt) else 0),
               All = False,
               SinceID = (if sinceID opt \<noteq> [] then sinceID opt else []),
               MaxID = (if maxID opt \<noteq> [] then maxID opt else []) \<rparr>
      else None)"

definition timelineRunE ::
  "env \<Rightarrow> client \<Rightarrow> timelineOpts \<Rightarrow> string list \<Rightarrow> world \<Rightarrow> outcome \<times> world" where
  "timelineRunE e c opt args w =
     (let limOpts = timeline_limOpts opt;
          tl = (case args of [] \<Rightarrow> ''home'' | a # _ \<Rightarrow> a);
          signIn = (tl = ''home'' \<or> tl = ''direct'' \<or> take 1 tl = ''!'');
          w1 = do_call (MadonInit signIn) w
      in case madonInit e signIn of
           Some err \<Rightarrow> (Returned (Some err), w1)
         | None \<Rightarrow>
            (let w2 = do_call (ReqGetTimelines tl (local opt) (onlyMedia opt) limOpts) w1
             in case GetTimelines c tl (local opt) (onlyMedia opt) limOpts of
                  (sl, Some err) \<Rightarrow> (Exited 1, errPrint (error_line err) w2)
                | (sl, None) \<Rightarrow>
                   (case keep_results (timelineOpts.keep opt) sl of
                      Inl p \<Rightarrow> (Panicked p, w2)
                    | Inr sl' \<Rightarrow> print_result e (StatusList sl') w2)))"

section \<open>suggestions.go\<close>

record suggestionsOpts =
  accountID :: string
  accountIDs :: string
  keep :: "64 word"

definition suggestionsGetRunE ::
  "env \<Rightarrow> client \<Rightarrow> suggestionsOpts \<Rightarrow> world \<Rightarrow> outcome \<times> world" where
  "suggestionsGetRunE e c opt w =
     (let w1 = do_call (MadonInit True) w
      in case madonInit e True of
           Some err \<Rightarrow> (Returned (Some err), w1)
         | None \<Rightarrow>
            (let w2 = do_call (ReqGetSuggestions None) w1
             in case GetSuggestions c None of
                  (accountList, err) \<Rightarrow>
                    (case keep_results (suggestionsOpts.keep opt) accountList of
                       Inl p \<Rightarrow> (Panicked p, w2)
                     | Inr accountList' \<Rightarrow>
                        (case err of
                           Some er \<Rightarrow> (Exited 1, errPrint (error_line er) w2)
                         | None \<Rightarrow> print_result e (AccountList accountList') w2))))"

text \<open>
  The first part of \<open>suggestionsDeleteRunE\<close>: from the options to the list of IDs, or
  the error the command returns.
\<close>

definition suggestionsDelete_ids :: "env \<Rightarrow> suggestionsOpts \<Rightarrow> error + string list" where
  "suggestionsDelete_ids e opt =
     (if accountID opt = [] \<and> length (accountIDs opt) = 0 then Inl (New ''missing account IDs'')
      else if accountID opt \<noteq> [] \<and> length (accountIDs opt) > 0 then Inl (New ''incompatible options'')
      else case splitIDs e (accountIDs opt) of
             Inl err \<Rightarrow> Inl (New ''cannot parse account IDs'')
           | Inr ids0 \<Rightarrow>
              (let ids = (if accountID opt \<noteq> [] then [accountID opt] else ids0)
               in if length ids < 1 then Inl (New ''missing account IDs'') else Inr ids))"

text \<open>
  The message of \<open>errPrint("Cannot remove account %d: %s", id, e)\<close>: \<open>id\<close> is a
  string type under the verb \<open>%d\<close>, and \<open>e\<close> may be \<open>nil\<close>.
\<close>

definition cannot_remove_msg :: "string \<Rightarrow> error option \<Rightarrow> string" where
  "cannot_remove_msg i e =
     ''Cannot remove account %!d(madon.ActivityID='' @ i @ ''): '' @
     (case e of None \<Rightarrow> ''%!s(<nil>)'' | Some x \<Rightarrow> Error x)"

text \<open>
  The loop
  \<^verbatim>\<open>for _, id := range ids {
      if e := gClient.DeleteSuggestion(id); err != nil {
          errPrint("Cannot remove account %d: %s", id, e); err = e } }\<close>
  with the variable \<open>err\<close> of the enclosing function as the loop state. The
  condition reads \<open>err\<close>, not \<open>e\<close>.
\<close>

fun suggestionsDelete_loop ::
  "client \<Rightarrow> string list \<Rightarrow> error option \<Rightarrow> world \<Rightarrow> error option \<times> world" where
  "suggestionsDelete_loop c [] err w = (err, w)"
| "suggestionsDelete_loop c (i # ids) err w =
     (let e = DeleteSuggestion c (ActivityID i);
          w1 = do_call (ReqDeleteSuggestion (ActivityID i)) w
      in if err \<noteq> None
         then suggestionsDelete_loop c ids e (errPrint (cannot_remove_msg i e) w1)
         else suggestionsDelete_loop c ids err w1)"

definition suggestionsDeleteRunE ::
  "env \<Rightarrow> client \<Rightarrow> suggestionsOpts \<Rightarrow> world \<Rightarrow> outcome \<times> world" where
  "suggestionsDeleteRunE e c opt w =
     (case suggestionsDelete_ids e opt of
        Inl err \<Rightarrow> (Returned (Some err), w)
      | Inr ids \<Rightarrow>
         (let w1 = do_call (MadonInit True) w
          in case madonInit e True of
               Some err \<Rightarrow> (Returned (Some err), w1)
             | None \<Rightarrow>
                (case suggestionsDelete_loop c ids None w1 of
                   (Some err, w2) \<Rightarrow> (Exited 1, w2)
                 | (None, w2) \<Rightarrow> (Returned None, w2))))"

section \<open>toot.go and status.go\<close>

text \<open>
  \<open>statusOpts\<close>. status.go declares \<open>inReplyToID\<close> as \<open>int64\<close>, while \<open>toot\<close>
  compares it with the empty string and reads the extra member \<open>_hasReplyTo\<close>
  (here \<open>hasReplyTo\<close>); the record follows \<open>toot\<close>, the function that reads them.
\<close>

record statusOpts =
  statusID :: "64 word"
  unset :: bool
  visibility :: string
  sensitive :: bool
  spoiler :: string
  inReplyToID :: string
  hasReplyTo :: bool
  mediaIDs :: string
  mediaFilePath :: string
  textFilePath :: string
  stdin :: bool
  addMentions :: bool
  sameVisibility :: bool
  limit :: "64 word"
  keep :: "64 word"
  all :: bool

text \<open>\<open>strings.Join\<close>.\<close>

fun Join :: "string list \<Rightarrow> string \<Rightarrow> string" where
  "Join [] sep = []"
| "Join [x] sep = x"
| "Join (x # y # ys) sep = x @ sep @ Join (y # ys) sep"

definition mentionsList :: "client \<Rightarrow> Status \<Rightarrow> world \<Rightarrow> (error + string) \<times> world" where
  "mentionsList c s w =
     (let w1 = do_call ReqGetCurrentAccount w
      in case GetCurrentAccount c of
           Inl err \<Rightarrow> (Inl (Wrap err ''cannot check account details''), w1)
         | Inr a \<Rightarrow>
            (let mentions =
                   (if Acct (Status.Account s) \<noteq> Acct a then [''@'' @ Acct (Status.Account s)] else [])
                   @ map (\<lambda>m. ''@'' @ Acct m) (filter (\<lambda>m. Acct m \<noteq> Acct a) (Mentions s));
                 mentionsStr = Join mentions '' ''
             in if length mentionsStr > 0 then (Inr (mentionsStr @ '' ''), w1)
                else (Inr [], w1)))"

text \<open>
  The block of \<open>toot\<close> for replies (\<open>if opt.inReplyToID != "" { ... }\<close>): it yields
  the visibility and the text to post.
\<close>

definition toot_reply ::
  "env \<Rightarrow> client \<Rightarrow> statusOpts \<Rightarrow> string \<Rightarrow> world \<Rightarrow> (error + string \<times> string) \<times> world" where
  "toot_reply e c opt tootText w =
     (if inReplyToID opt \<noteq> [] then
        (let preserveVis = (sameVisibility opt \<and> \<not> tootVisibilityChanged e
                              \<and> \<not> statusPostVisibilityChanged e)
         in if preserveVis \<or> addMentions opt then
              (let w1 = do_call (ReqGetStatus (ActivityID (inReplyToID opt))) w
               in case GetStatus c (ActivityID (inReplyToID opt)) of
                    Inl err \<Rightarrow> (Inl (Wrap err ''cannot get original message''), w1)
                  | Inr initialStatus \<Rightarrow>
                     (let vis = (if preserveVis then
                                   (let v = Status.Visibility initialStatus
                                    in if v = ''public'' then ''unlisted'' else v)
                                 else visibility opt)
                      in if addMentions opt then
                           (case mentionsList c initialStatus w1 of
                              (Inl err, w2) \<Rightarrow> (Inl err, w2)
                            | (Inr mentions, w2) \<Rightarrow> (Inr (vis, mentions @ tootText), w2))
                         else (Inr (vis, tootText), w1)))
            else (Inr (visibility opt, tootText), w))
      else (Inr (visibility opt, tootText), w))"

text \<open>The block \<open>if opt.mediaFilePath != "" { ... }\<close>: it yields the media IDs to post.\<close>

definition toot_media ::
  "env \<Rightarrow> statusOpts \<Rightarrow> string list \<Rightarrow> world \<Rightarrow> (error + string list) \<times> world" where
  "toot_media e opt ids w =
     (if mediaFilePath opt \<noteq> [] then
        (if length ids > 3 then (Inl (New ''too many media attachments''), w)
         else
           (let w1 = do_call (ReqUploadFile (mediaFilePath opt)) w
            in case uploadFile e (mediaFilePath opt) of
                 Inl err \<Rightarrow> (Inl (Wrap err ''cannot attach media file''), w1)
               | Inr fileMediaID \<Rightarrow>
                   (Inr (if fileMediaID \<noteq> [] then ids @ [fileMediaID] else ids), w1)))
      else (Inr ids, w))"

text \<open>The default visibility of the configuration (\<open>viper.GetString("default_visibility")\<close>).\<close>

definition toot_default_visibility :: "env \<Rightarrow> statusOpts \<Rightarrow> statusOpts" where
  "toot_default_visibility e opt =
     (if visibility opt = [] then
        (let v = default_visibility e in if v \<noteq> [] then opt\<lparr> visibility := v \<rparr> else opt)
      else opt)"

definition toot ::
  "env \<Rightarrow> client \<Rightarrow> statusOpts \<Rightarrow> string \<Rightarrow> world \<Rightarrow> (error + Status) \<times> world" where
  "toot e c opt0 tootText w =
     (let opt = toot_default_visibility e opt0
      in if visibility opt \<notin> set [[], ''direct'', ''private'', ''unlisted'', ''public''] then
           (Inl (New (''invalid visibility argument value '' @ [CHR 0x27] @ visibility opt
                      @ [CHR 0x27])), w)
         else if hasReplyTo opt \<and> inReplyToID opt = [] then
           (Inl (New ''invalid in-reply-to argument value''), w)
         else
           (case splitIDs e (mediaIDs opt) of
              Inl err \<Rightarrow> (Inl (New ''cannot parse media IDs''), w)
            | Inr ids \<Rightarrow>
               (if tootText = [] \<and> length ids = 0 \<and> spoiler opt = [] \<and> mediaFilePath opt = []
                then (Inl (New ''toot is empty''), w)
                else
                  (case toot_reply e c opt tootText w of
                     (Inl err, w1) \<Rightarrow> (Inl err, w1)
                   | (Inr (vis, text), w1) \<Rightarrow>
                      (case toot_media e opt ids w1 of
                         (Inl err, w2) \<Rightarrow> (Inl err, w2)
                       | (Inr ids', w2) \<Rightarrow>
                          (let postParam = \<lparr> Text = text, InReplyTo = inReplyToID opt,
                                              MediaIDs = ids', Sensitive = sensitive opt,
                                              SpoilerText = spoiler opt, Visibility = vis \<rparr>
                           in (PostStatus c postParam, do_call (ReqPostStatus postParam) w2)))))))"

subsection \<open>statusSubcommandRunE\<close>

definition status_limOpts :: "statusOpts \<Rightarrow> LimitParams option" where
  "status_limOpts opt =
     (if all opt \<or> 0 < statusOpts.limit opt then
        Some \<lparr> Limit = (if 0 < statusOpts.limit opt then sint (statusOpts.limit opt) else 0),
               All = all opt, SinceID = [], MaxID = [] \<rparr>
      else None)"

text \<open>
  The \<open>switch subcmd\<close> of \<open>statusSubcommandRunE\<close> ends in one of three ways: the
  \<open>default\<close> case returns from the function; the run time panics in a slice
  expression; or control reaches the statements after the switch with the values
  of \<open>obj\<close> and \<open>err\<close>.
\<close>

datatype switch_result =
    InternalError
  | SwitchPanic string
  | Fallthrough "obj option" "error option"

text \<open>A call that assigns \<open>err\<close> only; \<open>obj\<close> stays the \<open>nil\<close> interface.\<close>

definition status_action ::
  "call \<Rightarrow> error option \<Rightarrow> world \<Rightarrow> switch_result \<times> world" where
  "status_action r err w = (Fallthrough None err, do_call r w)"

text \<open>A call whose pointer result is assigned to \<open>obj\<close>.\<close>

definition status_fetch ::
  "call \<Rightarrow> error + 'a \<Rightarrow> ('a option \<Rightarrow> obj) \<Rightarrow> world \<Rightarrow> switch_result \<times> world" where
  "status_fetch r res mk w =
     (case res of
        Inl err \<Rightarrow> (Fallthrough (Some (mk None)) (Some err), do_call r w)
      | Inr x \<Rightarrow> (Fallthrough (Some (mk (Some x))) None, do_call r w))"

text \<open>The cases reblogged-by and favourited-by.\<close>

definition status_accounts ::
  "call \<Rightarrow> Account slice \<times> error option \<Rightarrow> 64 word \<Rightarrow> world \<Rightarrow> switch_result \<times> world" where
  "status_accounts r res k w =
     (case res of
        (accountList, err) \<Rightarrow>
          (case keep_results k accountList of
             Inl p \<Rightarrow> (SwitchPanic p, do_call r w)
           | Inr accountList' \<Rightarrow> (Fallthrough (Some (AccountList accountList')) err, do_call r w)))"

text \<open>The case post.\<close>

definition status_post ::
  "env \<Rightarrow> client \<Rightarrow> statusOpts \<Rightarrow> string list \<Rightarrow> world \<Rightarrow> switch_result \<times> world" where
  "status_post e c opt args w =
     (let text = Join args '' '';
          rd = (if textFilePath opt \<noteq> [] then ReadFile e (textFilePath opt)
                else if stdin opt then ReadAllStdin e
                else Inr text)
      in case rd of
           Inl err \<Rightarrow> (Fallthrough None (Some err), w)
         | Inr text' \<Rightarrow>
            (case toot e c opt text' w of
               (Inl err, w1) \<Rightarrow> (Fallthrough (Some (StatusObj None)) (Some err), w1)
             | (Inr s, w1) \<Rightarrow> (Fallthrough (Some (StatusObj (Some s))) None, w1)))"

definition status_switch ::
  "env \<Rightarrow> client \<Rightarrow> statusOpts \<Rightarrow> string \<Rightarrow> string list \<Rightarrow> world \<Rightarrow> switch_result \<times> world" where
  "status_switch e c opt subcmd args w =
     (let limOpts = status_limOpts opt; i = Int64 (statusID opt)
      in if subcmd = ''show'' then
           status_fetch (ReqGetStatus i) (GetStatus c i) StatusObj w
         else if subcmd = ''context'' then
           status_fetch (ReqGetStatusContext i) (GetStatusContext c i) ContextObj w
         else if subcmd = ''card'' then
           status_fetch (ReqGetStatusCard i) (GetStatusCard c i) CardObj w
         else if subcmd = ''reblogged-by'' then
           status_accounts (ReqGetStatusRebloggedBy i limOpts) (GetStatusRebloggedBy c i limOpts)
             (statusOpts.keep opt) w
         else if subcmd = ''favourited-by'' then
           status_accounts (ReqGetStatusFavouritedBy i limOpts) (GetStatusFavouritedBy c i limOpts)
             (statusOpts.keep opt) w
         else if subcmd = ''delete'' then
           status_action (ReqDeleteStatus i) (DeleteStatus c i) w
         else if subcmd = ''boost'' \<or> subcmd = ''unboost'' then
           (if unset opt \<or> subcmd = ''unboost''
            then status_action (ReqUnreblogStatus i) (UnreblogStatus c i) w
            else status_action (ReqReblogStatus i) (ReblogStatus c i) w)
         else if subcmd = ''favourite'' \<or> subcmd = ''unfavourite'' then
           (if unset opt \<or> subcmd = ''unfavourite''
            then status_action (ReqUnfavouriteStatus i) (UnfavouriteStatus c i) w
            else status_action (ReqFavouriteStatus i) (FavouriteStatus c i) w)
         else if subcmd = ''pin'' \<or> subcmd = ''unpin'' then
           (if unset opt \<or> subcmd = ''unpin''
            then status_action (ReqUnpinStatus i) (UnpinStatus c i) w
            else status_action (ReqPinStatus i) (PinStatus c i) w)
         else if subcmd = ''mute-conversation'' then
           status_fetch (ReqMuteConversation i) (MuteConversation c i) StatusObj w
         else if subcmd = ''unmute-conversation'' then
           status_fetch (ReqUnmuteConversation i) (UnmuteConversation c i) StatusObj w
         else if subcmd = ''post'' then
           status_post e c opt args w
         else (InternalError, w))"

definition statusSubcommandRunE ::
  "env \<Rightarrow> client \<Rightarrow> statusOpts \<Rightarrow> string \<Rightarrow> string list \<Rightarrow> world \<Rightarrow> outcome \<times> world" where
  "statusSubcommandRunE e c opt subcmd args w =
     (case status_switch e c opt subcmd args w of
        (InternalError, w1) \<Rightarrow> (Returned (Some (New ''statusSubcommand: internal error'')), w1)
      | (SwitchPanic p, w1) \<Rightarrow> (Panicked p, w1)
      | (Fallthrough ob err, w1) \<Rightarrow>
         (case err of
            Some er \<Rightarrow> (Exited 1, errPrint (error_line er) w1)
          | None \<Rightarrow>
             (case ob of
                None \<Rightarrow> (Returned None, w1)
              | Some o' \<Rightarrow> print_result e o' w1)))"

section \<open>root.go\<close>

definition AppName :: string where
  "AppName = ''madonctl''"

definition defaultConfigFile :: string where
  "defaultConfigFile = ''$HOME/.config/'' @ AppName @ ''/'' @ AppName @ ''.yaml''"

subsection \<open>The persistent flags of the root command\<close>

text \<open>
  A flag as \<open>pflag\<close> keeps it: name, shorthand, usage text, default value (as text)
  and annotations (a map from annotation key to values).
\<close>

record flag =
  Name :: string
  Shorthand :: string
  Usage :: string
  DefValue :: string
  Annotations :: "(string \<times> string list) list"

text \<open>\<open>StringVar\<close>/\<open>StringVarP\<close> and \<open>BoolVarP\<close>: the flag each of them registers.\<close>

definition StringVarP :: "string \<Rightarrow> string \<Rightarrow> string \<Rightarrow> string \<Rightarrow> flag" where
  "StringVarP n sh v u = \<lparr> Name = n, Shorthand = sh, Usage = u, DefValue = v, Annotations = [] \<rparr>"

definition StringVar :: "string \<Rightarrow> string \<Rightarrow> string \<Rightarrow> flag" where
  "StringVar n v u = StringVarP n [] v u"

definition BoolVarP :: "string \<Rightarrow> string \<Rightarrow> bool \<Rightarrow> string \<Rightarrow> flag" where
  "BoolVarP n sh v u =
     \<lparr> Name = n, Shorthand = sh, Usage = u,
       DefValue = (if v then ''true'' else ''false''), Annotations = [] \<rparr>"

text \<open>\<open>FlagSet.Lookup\<close>, and the assignment \<open>Lookup(name).Annotations = a\<close>.\<close>

fun Lookup :: "flag list \<Rightarrow> string \<Rightarrow> flag option" where
  "Lookup [] n = None"
| "Lookup (f # fs) n = (if Name f = n then Some f else Lookup fs n)"

fun set_Annotations :: "string \<Rightarrow> (string \<times> string list) list \<Rightarrow> flag list \<Rightarrow> flag list" where
  "set_Annotations n a [] = []"
| "set_Annotations n a (f # fs) =
     (if Name f = n then f\<lparr> Annotations := a \<rparr> # fs else f # set_Annotations n a fs)"

text \<open>The constant \<open>cobra.BashCompCustom\<close>.\<close>

definition BashCompCustom :: string where
  "BashCompCustom = ''cobra_annotation_bash_completion_custom''"

text \<open>The flags as \<open>init\<close> leaves them: the registrations, then the three annotations.\<close>

definition RootCmd_PersistentFlags :: "flag list" where
  "RootCmd_PersistentFlags =
     set_Annotations ''theme'' [(BashCompCustom, [''__madonctl_theme''])]
     (set_Annotations ''color'' [(BashCompCustom, [''__madonctl_color''])]
     (set_Annotations ''output'' [(BashCompCustom, [''__madonctl_output''])]
       [ StringVar ''config'' [] (''config file (default is '' @ defaultConfigFile @ '')''),
         BoolVarP ''verbose'' ''v'' False ''Verbose mode'',
         StringVarP ''instance'' ''i'' [] ''Mastodon instance'',
         StringVarP ''login'' ''L'' [] ''Instance user login'',
         StringVarP ''password'' ''P'' [] ''Instance user password'',
         StringVarP ''token'' ''t'' [] ''User token'',
         StringVarP ''output'' ''o'' [] ''Output format (plain|json|yaml|template|theme)'',
         StringVar ''template'' [] ''Go template (for output=template)'',
         StringVar ''template-file'' [] ''Go template file (for output=template)'',
         StringVar ''theme'' [] ''Theme name (for output=theme)'',
         StringVar ''color'' [] ''Color mode (auto|on|off; for output=template)'' ]))"

subsection \<open>The shell completion functions\<close>

definition TAB :: string where
  "TAB = [CHR 0x09]"

definition DQ :: string where
  "DQ = [CHR 0x22]"

text \<open>
  The lines of the raw string \<open>shellComplFunc\<close>; the string starts with a line break
  and every line ends with one.
\<close>

definition shellComplFunc_lines :: "string list" where
  "shellComplFunc_lines =
     [ [],
       ''__madonctl_visibility() {'',
       TAB @ ''COMPREPLY=( direct private unlisted public )'',
       ''}'',
       ''__madonctl_output() {'',
       TAB @ ''COMPREPLY=( plain json yaml template theme )'',
       ''}'',
       ''__madonctl_color() {'',
       TAB @ ''COMPREPLY=( auto on off )'',
       ''}'',
       ''__madonctl_theme() {'',
       TAB @ ''local madonctl_output out'',
       TAB @ ''# This doesn'' @ [CHR 0x27] @ ''t handle spaces or special chars...'',
       TAB @ ''if out=$(madonctl config themes 2>/dev/null); then'',
       TAB @ TAB @ ''COMPREPLY=( $( compgen -W '' @ DQ @ ''${out[*]}'' @ DQ @ '' -- ''
         @ DQ @ ''$cur'' @ DQ @ '' ) )'',
       TAB @ ''fi'',
       ''}'' ]"

definition shellComplFunc :: string where
  "shellComplFunc = concat (map (\<lambda>l. l @ [CHR 0x0A]) shellComplFunc_lines)"

text \<open>
  Reading the script back: the lines of a text, the body of the shell function with
  a given name (the lines between \<open>name() {\<close> and the closing brace), and the
  command a line runs in its first command substitution \<open>$(...)\<close>.
\<close>

fun text_lines :: "string \<Rightarrow> string \<Rightarrow> string list" where
  "text_lines acc [] = (if acc = [] then [] else [acc])"
| "text_lines acc (ch # cs) =
     (if ch = CHR 0x0A then acc # text_lines [] cs else text_lines (acc @ [ch]) cs)"

fun shell_function :: "string \<Rightarrow> string list \<Rightarrow> string list option" where
  "shell_function n [] = None"
| "shell_function n (l # ls) =
     (if l = n @ ''() {'' then Some (takeWhile (\<lambda>x. x \<noteq> ''}'') ls) else shell_function n ls)"

fun after_dollar_paren :: "string \<Rightarrow> string option" where
  "after_dollar_paren (a # b # cs) =
     (if a = CHR ''$'' \<and> b = CHR ''('' then Some cs else after_dollar_paren (b # cs))"
| "after_dollar_paren cs = None"

definition command_substitution :: "string \<Rightarrow> string option" where
  "command_substitution l =
     (case after_dollar_paren l of
        None \<Rightarrow> None
      | Some cs \<Rightarrow> Some (takeWhile (\<lambda>ch. ch \<noteq> CHR '')'') cs))"

subsection \<open>The command tree and its execution\<close>

text \<open>
  The commands the three source files declare. The subcommands of \<open>status\<close> are
  told apart by their name (the first word of \<open>Use\<close>).
\<close>

datatype command =
    RootCmd
  | suggestionsCmd
  | suggestionsGetSubcommand
  | suggestionsDeleteSubcommand
  | tootAliasCmd
  | timelineCmd
  | statusCmd
  | statusSubcommand string

definition statusSubcommands :: "string list" where
  "statusSubcommands =
     [''show'', ''context'', ''card'', ''reblogged-by'', ''favourited-by'', ''delete'',
      ''mute-conversation'', ''unmute-conversation'', ''boost'', ''unboost'', ''favourite'',
      ''unfavourite'', ''pin'', ''unpin'', ''post'']"

text \<open>\<open>cmd.Name()\<close>.\<close>

fun CommandName :: "command \<Rightarrow> string" where
  "CommandName RootCmd = AppName"
| "CommandName suggestionsCmd = ''suggestions''"
| "CommandName suggestionsGetSubcommand = ''list''"
| "CommandName suggestionsDeleteSubcommand = ''delete''"
| "CommandName tootAliasCmd = ''toot''"
| "CommandName timelineCmd = ''timeline''"
| "CommandName statusCmd = ''status''"
| "CommandName (statusSubcommand n) = n"

text \<open>\<open>cmd.Parent()\<close>, as the \<open>AddCommand\<close> calls of the \<open>init\<close> functions set it.\<close>

fun Parent :: "command \<Rightarrow> command option" where
  "Parent RootCmd = None"
| "Parent suggestionsCmd = Some RootCmd"
| "Parent suggestionsGetSubcommand = Some suggestionsCmd"
| "Parent suggestionsDeleteSubcommand = Some suggestionsCmd"
| "Parent tootAliasCmd = Some RootCmd"
| "Parent timelineCmd = Some RootCmd"
| "Parent statusCmd = Some RootCmd"
| "Parent (statusSubcommand n) = Some statusCmd"

fun depth :: "command \<Rightarrow> nat" where
  "depth RootCmd = 0"
| "depth suggestionsGetSubcommand = 2"
| "depth suggestionsDeleteSubcommand = 2"
| "depth (statusSubcommand n) = 2"
| "depth c = 1"

text \<open>The loop \<open>for p := c; p != nil; p = p.Parent()\<close>: the command and its ancestors.\<close>

function ancestors :: "command \<Rightarrow> command list" where
  "ancestors c = (case Parent c of None \<Rightarrow> [c] | Some p \<Rightarrow> c # ancestors p)"
  by pat_completeness auto
termination
  by (relation "measure depth") (auto elim: Parent.elims)

declare ancestors.simps [simp del]

text \<open>What one invocation is run with: the command found, its arguments, and the
  option variables as flag parsing left them.\<close>

record invocation =
  cmd :: command
  args :: "string list"
  optsSuggestions :: suggestionsOpts
  optsTimeline :: timelineOpts
  optsStatus :: statusOpts
  inReplyToChanged :: bool

text \<open>
  The two \<open>PersistentPreRunE\<close> hooks: \<open>checkOutputFormat\<close> on \<open>RootCmd\<close>, and the
  function literal on \<open>statusCmd\<close>. A hook receives the command being executed.
\<close>

datatype hook = RootCmd_PersistentPreRunE | statusCmd_PersistentPreRunE

fun PersistentPreRunE :: "command \<Rightarrow> hook option" where
  "PersistentPreRunE RootCmd = Some RootCmd_PersistentPreRunE"
| "PersistentPreRunE statusCmd = Some statusCmd_PersistentPreRunE"
| "PersistentPreRunE c = None"

fun run_hook :: "hook \<Rightarrow> env \<Rightarrow> invocation \<Rightarrow> world \<Rightarrow> error option \<times> world" where
  "run_hook RootCmd_PersistentPreRunE e iv w =
     (checkOutputFormat e, do_call CallCheckOutputFormat w)"
| "run_hook statusCmd_PersistentPreRunE e iv w =
     (if sint (statusID (optsStatus iv)) < 1 \<and> CommandName (cmd iv) \<noteq> ''post''
      then (Some (New ''missing status ID''), w)
      else (madonInit e True, do_call (MadonInit True) w))"

text \<open>The \<open>RunE\<close> of the \<open>toot\<close> alias.\<close>

definition tootAliasCmd_RunE ::
  "env \<Rightarrow> client \<Rightarrow> invocation \<Rightarrow> world \<Rightarrow> outcome \<times> world" where
  "tootAliasCmd_RunE e c iv w =
     (let w1 = do_call (MadonInit True) w
      in case madonInit e True of
           Some err \<Rightarrow> (Returned (Some err), w1)
         | None \<Rightarrow>
            statusSubcommandRunE e c ((optsStatus iv)\<lparr> hasReplyTo := inReplyToChanged iv \<rparr>)
              ''post'' (args iv) w1)"

text \<open>The commands that have a \<open>RunE\<close>, and what it runs.\<close>

fun Runnable :: "command \<Rightarrow> bool" where
  "Runnable RootCmd = False"
| "Runnable statusCmd = False"
| "Runnable c = True"

definition RunE :: "env \<Rightarrow> client \<Rightarrow> invocation \<Rightarrow> world \<Rightarrow> outcome \<times> world" where
  "RunE e c iv w =
     (case cmd iv of
        suggestionsCmd \<Rightarrow> suggestionsGetRunE e c (optsSuggestions iv) w
      | suggestionsGetSubcommand \<Rightarrow> suggestionsGetRunE e c (optsSuggestions iv) w
      | suggestionsDeleteSubcommand \<Rightarrow> suggestionsDeleteRunE e c (optsSuggestions iv) w
      | tootAliasCmd \<Rightarrow> tootAliasCmd_RunE e c iv w
      | timelineCmd \<Rightarrow> timelineRunE e c (optsTimeline iv) (args iv) w
      | statusSubcommand n \<Rightarrow> statusSubcommandRunE e c (optsStatus iv) n (args iv) w
      | _ \<Rightarrow> (Returned None, w))"

text \<open>
  The library \<open>cobra\<close> runs a command in this order (\<open>Command.execute\<close>): a command
  without a \<open>Run\<close> function only prints its help and no hook runs; otherwise the
  persistent pre-run hooks run, then \<open>RunE\<close>. Which hooks run depends on the
  library's global \<open>EnableTraverseRunHooks\<close> (\<open>False\<close> unless the program sets it, and
  no source file at hand does): when it is off, only the hook of the nearest
  command that has one, going from the command towards the root; when it is on, the
  hooks of all of them, the root's first. An error returned by a hook ends the
  execution with that error. Flag parsing and the reading of the configuration
  file come before and are taken as done; what the library itself prints for a
  returned error is left out.
\<close>

definition hooks_to_run :: "bool \<Rightarrow> command \<Rightarrow> hook list" where
  "hooks_to_run EnableTraverseRunHooks c =
     (let hs = List.map_filter PersistentPreRunE (ancestors c)
      in if EnableTraverseRunHooks then rev hs else take 1 hs)"

fun run_hooks :: "hook list \<Rightarrow> env \<Rightarrow> invocation \<Rightarrow> world \<Rightarrow> error option \<times> world" where
  "run_hooks [] e iv w = (None, w)"
| "run_hooks (h # hs) e iv w =
     (case run_hook h e iv w of
        (Some err, w1) \<Rightarrow> (Some err, w1)
      | (None, w1) \<Rightarrow> run_hooks hs e iv w1)"

definition cobra_execute ::
  "bool \<Rightarrow> env \<Rightarrow> client \<Rightarrow> invocation \<Rightarrow> world \<Rightarrow> outcome \<times> world" where
  "cobra_execute EnableTraverseRunHooks e c iv w =
     (if \<not> Runnable (cmd iv) then (Returned None, w)
      else case run_hooks (hooks_to_run EnableTraverseRunHooks (cmd iv)) e iv w of
             (Some err, w1) \<Rightarrow> (Returned (Some err), w1)
           | (None, w1) \<Rightarrow> RunE e c iv w1)"

text \<open>
  \<open>Execute\<close>:
  \<^verbatim>\<open>if err := RootCmd.Execute(); err != nil { errPrint("Error: %s", err.Error());
  os.Exit(-1) }\<close>
\<close>

definition Execute ::
  "bool \<Rightarrow> env \<Rightarrow> client \<Rightarrow> invocation \<Rightarrow> world \<Rightarrow> outcome \<times> world" where
  "Execute EnableTraverseRunHooks e c iv w =
     (case cobra_execute EnableTraverseRunHooks e c iv w of
        (Returned (Some err), w1) \<Rightarrow> (Exited (- 1), errPrint (error_line err) w1)
      | r \<Rightarrow> r)"

text \<open>
  The exit status the operating system reports: 0 when \<open>main\<close> returns, the low 8
  bits of the argument of \<open>os.Exit\<close>, and 2 after a panic.
\<close>

fun exit_status :: "outcome \<Rightarrow> int" where
  "exit_status (Returned r) = 0"
| "exit_status (Exited n) = n mod 256"
| "exit_status (Panicked p) = 2"

section \<open>Concrete inputs\<close>

text \<open>A server that answers every call with success, and one that refuses every call.\<close>

definition alice :: Account where
  "alice = \<lparr> Acct = ''alice'' \<rparr>"

definition bob :: Account where
  "bob = \<lparr> Acct = ''bob'' \<rparr>"

definition carol :: Account where
  "carol = \<lparr> Acct = ''carol'' \<rparr>"

definition public_status :: Status where
  "public_status =
     \<lparr> Status.Visibility = ''public'', Account = alice, Mentions = [bob], Content = ''hello'' \<rparr>"

definition private_status :: Status where
  "private_status =
     \<lparr> Status.Visibility = ''private'', Account = bob, Mentions = [], Content = ''psst'' \<rparr>"

definition ok_client :: client where
  "ok_client = \<lparr>
     GetSuggestions = (\<lambda>_. (Slice [alice, bob, carol] 3, None)),
     DeleteSuggestion = (\<lambda>_. None),
     GetTimelines = (\<lambda>_ _ _ _. (Slice [public_status, private_status, public_status] 3, None)),
     GetStatus = (\<lambda>_. Inr public_status),
     GetStatusContext = (\<lambda>_. Inr (Context ''context'')),
     GetStatusCard = (\<lambda>_. Inr (Card ''card'')),
     GetStatusRebloggedBy = (\<lambda>_ _. (Slice [alice, bob, carol] 3, None)),
     GetStatusFavouritedBy = (\<lambda>_ _. (Slice [alice, bob, carol] 3, None)),
     DeleteStatus = (\<lambda>_. None),
     UnreblogStatus = (\<lambda>_. None),
     ReblogStatus = (\<lambda>_. None),
     UnfavouriteStatus = (\<lambda>_. None),
     FavouriteStatus = (\<lambda>_. None),
     UnpinStatus = (\<lambda>_. None),
     PinStatus = (\<lambda>_. None),
     MuteConversation = (\<lambda>_. Inr public_status),
     UnmuteConversation = (\<lambda>_. Inr public_status),
     GetCurrentAccount = Inr carol,
     PostStatus = (\<lambda>p. Inr \<lparr> Status.Visibility = PostStatusParams.Visibility p, Account = carol,
                                Mentions = [], Content = Text p \<rparr>) \<rparr>"

definition failing_client :: client where
  "failing_client = \<lparr>
     GetSuggestions = (\<lambda>_. (nil_slice, Some (Api ''bad request''))),
     DeleteSuggestion = (\<lambda>_. Some (Api ''bad request'')),
     GetTimelines = (\<lambda>_ _ _ _. (nil_slice, Some (Api ''bad request''))),
     GetStatus = (\<lambda>_. Inl (Api ''bad request'')),
     GetStatusContext = (\<lambda>_. Inl (Api ''bad request'')),
     GetStatusCard = (\<lambda>_. Inl (Api ''bad request'')),
     GetStatusRebloggedBy = (\<lambda>_ _. (nil_slice, Some (Api ''bad request''))),
     GetStatusFavouritedBy = (\<lambda>_ _. (nil_slice, Some (Api ''bad request''))),
     DeleteStatus = (\<lambda>_. Some (Api ''bad request'')),
     UnreblogStatus = (\<lambda>_. Some (Api ''bad request'')),
     ReblogStatus = (\<lambda>_. Some (Api ''bad request'')),
     UnfavouriteStatus = (\<lambda>_. Some (Api ''bad request'')),
     FavouriteStatus = (\<lambda>_. Some (Api ''bad request'')),
     UnpinStatus = (\<lambda>_. Some (Api ''bad request'')),
     PinStatus = (\<lambda>_. Some (Api ''bad request'')),
     MuteConversation = (\<lambda>_. Inl (Api ''bad request'')),
     UnmuteConversation = (\<lambda>_. Inl (Api ''bad request'')),
     GetCurrentAccount = Inl (Api ''bad request''),
     PostStatus = (\<lambda>_. Inl (Api ''bad request'')) \<rparr>"

text \<open>
  An environment in which everything outside the three files succeeds, one whose
  output format is refused, and printers that succeed and fail.
\<close>

definition ok_printer :: printer where
  "ok_printer ob = (''rendered'', None)"


definition ok_env :: env where
  "ok_env = \<lparr>
     madonInit = (\<lambda>_. None),
     getPrinter = Inr ok_printer,
     checkOutputFormat = None,
     splitIDs = (\<lambda>s. if s = [] then Inr [] else if s = ''7,8'' then Inr [''7'', ''8'']
                      else Inl (New ''invalid ID'')),
     uploadFile = (\<lambda>_. Inr ''media1''),
     default_visibility = [],
     tootVisibilityChanged = False,
     statusPostVisibilityChanged = False,
     ReadFile = (\<lambda>_. Inr ''from file''),
     ReadAllStdin = Inr ''from stdin'' \<rparr>"

definition bad_format :: error where
  "bad_format = RenderError InvalidFormat ''output format not supported''"

definition bad_format_env :: env where
  "bad_format_env = ok_env\<lparr> getPrinter := Inl bad_format, checkOutputFormat := Some bad_format \<rparr>"

definition no_suggestionsOpts :: suggestionsOpts where
  "no_suggestionsOpts = \<lparr> accountID = [], accountIDs = [], keep = 0 \<rparr>"

definition no_timelineOpts :: timelineOpts where
  "no_timelineOpts =
     \<lparr> local = False, onlyMedia = False, timelineOpts.limit = 0, timelineOpts.keep = 0,
       sinceID = [], maxID = [] \<rparr>"

definition no_statusOpts :: statusOpts where
  "no_statusOpts =
     \<lparr> statusID = 0, unset = False, visibility = [], sensitive = False, spoiler = [],
       inReplyToID = [], hasReplyTo = False, mediaIDs = [], mediaFilePath = [],
       textFilePath = [], stdin = False, addMentions = False, sameVisibility = False,
       limit = 0, keep = 0, all = False \<rparr>"

text \<open>The invocation of a command with no argument and every option at its zero value.\<close>

definition invoke :: "command \<Rightarrow> invocation" where
  "invoke c = \<lparr> cmd = c, args = [], optsSuggestions = no_suggestionsOpts,
                optsTimeline = no_timelineOpts, optsStatus = no_statusOpts,
                inReplyToChanged = False \<rparr>"

definition reply_opts :: statusOpts where
  "reply_opts = no_statusOpts\<lparr> inReplyToID := ''42'', hasReplyTo := True, sameVisibility := True \<rparr>"

definition status_invocation :: "string \<Rightarrow> invocation" where
  "status_invocation n =
     (invoke (statusSubcommand n))\<lparr> optsStatus := no_statusOpts\<lparr> statusID := 1 \<rparr> \<rparr>"

section \<open>Vocabulary of the statements\<close>

text \<open>The calls on the rendering subsystem, and lists of calls that hold none.\<close>

fun is_render_call :: "call \<Rightarrow> bool" where
  "is_render_call CallCheckOutputFormat = True"
| "is_render_call CallGetPrinter = True"
| "is_render_call (CallPrintObj ob) = True"
| "is_render_call r = False"

definition api_calls :: "call list \<Rightarrow> bool" where
  "api_calls xs = list_all (\<lambda>x. \<not> is_render_call x) xs"




section \<open>The rendering subsystem, as the specification describes it\<close>

text \<open>
  Modelled from the spec: the package that implements \<open>getPrinter\<close> and \<open>printObj\<close>
  (the output format dispatcher, the serializers, the template engine and the theme
  registry) is not among the sources. The definitions below follow sections 3, 4.1,
  4.3 and 4.5 of the specification. What the specification leaves open is a
  parameter: the text of a field value, the json and yaml encoders, the template
  engine and the reading of a template file.
\<close>

record RenderRequest =
  format :: string
  templateBody :: "string option"
  templateFilePath :: "string option"
  themeName :: "string option"
  colorMode :: string

text \<open>
  Modelled from the spec: a record is a mapping from field name to value, in
  insertion order, with a kind tag.
\<close>

record 'v Rec =
  kind :: string
  fieldList :: "(string \<times> 'v) list"

datatype 'v ResultValue = Empty | Single "'v Rec" | List "'v Rec list"

record Theme =
  name :: string
  templatesByKind :: "(string \<times> string) list"
  defaultTemplate :: "string option"

record 'v backends =
  value_text :: "'v \<Rightarrow> string"
  encode_json :: "'v Rec \<Rightarrow> error + string"
  encode_yaml :: "'v Rec \<Rightarrow> error + string"
  RenderTemplate :: "string \<Rightarrow> 'v Rec \<Rightarrow> bool \<Rightarrow> error + string"
  read_template :: "string \<Rightarrow> error + string"
  themes :: "Theme list"
  colorDecision :: bool

definition line_break :: string where
  "line_break = [CHR 0x0A]"

text \<open>
  Modelled from the spec (4.5): \<open>Resolve\<close> finds a theme by name, \<open>TemplateFor\<close>
  returns the template of the kind, else the default template, else
  \<open>NoTemplateForKind\<close>.
\<close>

definition Resolve :: "Theme list \<Rightarrow> string \<Rightarrow> error + Theme" where
  "Resolve ts n =
     (case find (\<lambda>t. name t = n) ts of
        Some t \<Rightarrow> Inr t
      | None \<Rightarrow> Inl (RenderError UnknownTheme (''unknown theme; known themes: '' @ Join (map name ts) '', '')))"

definition TemplateFor :: "Theme \<Rightarrow> string \<Rightarrow> error + string" where
  "TemplateFor t k =
     (case map_of (templatesByKind t) k of
        Some b \<Rightarrow> Inr b
      | None \<Rightarrow>
         (case defaultTemplate t of
            Some b \<Rightarrow> Inr b
          | None \<Rightarrow> Inl (RenderError NoTemplateForKind (''no template for kind '' @ k))))"

text \<open>
  Modelled from the spec (4.1): the configuration-shape checks, which read the
  request only: the format is one of the closed set; \<open>template\<close> needs exactly one
  of template body and template file; \<open>theme\<close> needs the name of a known theme.
\<close>

definition check_request :: "'v backends \<Rightarrow> RenderRequest \<Rightarrow> error option" where
  "check_request B req =
     (if format req \<notin> set [''plain'', ''json'', ''yaml'', ''template'', ''theme''] then
        Some (RenderError InvalidFormat (''invalid output format '' @ format req))
      else if format req = ''template'' \<and> templateBody req = None \<and> templateFilePath req = None then
        Some (RenderError MissingTemplate ''no template given'')
      else if format req = ''template'' \<and> templateBody req \<noteq> None \<and> templateFilePath req \<noteq> None then
        Some (RenderError AmbiguousTemplate ''both a template and a template file given'')
      else if format req = ''theme'' then
        (case themeName req of
           None \<Rightarrow> Some (RenderError UnknownTheme ''no theme given'')
         | Some n \<Rightarrow> (case Resolve (themes B) n of Inl err \<Rightarrow> Some err | Inr t \<Rightarrow> None))
      else None)"

text \<open>
  Modelled from the spec (4.3): the plain serializer writes one line per top-level
  field, as \<open>key: value\<close>, in the order of the record.
\<close>

definition plain_line :: "('v \<Rightarrow> string) \<Rightarrow> string \<times> 'v \<Rightarrow> string" where
  "plain_line vt f = fst f @ '': '' @ vt (snd f)"

definition plain_record :: "('v \<Rightarrow> string) \<Rightarrow> 'v Rec \<Rightarrow> string" where
  "plain_record vt r = concat (map (\<lambda>f. plain_line vt f @ line_break) (fieldList r))"

text \<open>
  Modelled from the spec (4.1): the template body of a request of format
  \<open>template\<close> or \<open>theme\<close>, for a record of a given kind.
\<close>

definition template_body :: "'v backends \<Rightarrow> RenderRequest \<Rightarrow> string \<Rightarrow> error + string" where
  "template_body B req k =
     (if format req = ''template'' then
        (case templateBody req of
           Some b \<Rightarrow> Inr b
         | None \<Rightarrow>
            (case templateFilePath req of
               Some p \<Rightarrow> read_template B p
             | None \<Rightarrow> Inl (RenderError MissingTemplate ''no template given'')))
      else
        (case themeName req of
           None \<Rightarrow> Inl (RenderError UnknownTheme ''no theme given'')
         | Some n \<Rightarrow> (case Resolve (themes B) n of Inl err \<Rightarrow> Inl err | Inr t \<Rightarrow> TemplateFor t k)))"

text \<open>
  Modelled from the spec (4.1): the dispatch of one record: plain, json and yaml go
  to the serializers, template and theme to the template engine.
\<close>

definition render_record :: "'v backends \<Rightarrow> RenderRequest \<Rightarrow> 'v Rec \<Rightarrow> error + string" where
  "render_record B req r =
     (if format req = ''plain'' then Inr (plain_record (value_text B) r)
      else if format req = ''json'' then encode_json B r
      else if format req = ''yaml'' then encode_yaml B r
      else (case template_body B req (kind r) of
              Inl err \<Rightarrow> Inl err
            | Inr b \<Rightarrow> RenderTemplate B b r (colorDecision B)))"

text \<open>
  Modelled from the spec (4.1): a list is rendered element by element, each against
  the same request, and the texts are put together in the order of the list with
  one line break between two of them. The first element that fails ends the
  rendering with its error and no text.
\<close>

fun render_list :: "'v backends \<Rightarrow> RenderRequest \<Rightarrow> 'v Rec list \<Rightarrow> error + string" where
  "render_list B req [] = Inr []"
| "render_list B req [r] = render_record B req r"
| "render_list B req (r # rs) =
     (case render_record B req r of
        Inl err \<Rightarrow> Inl err
      | Inr t \<Rightarrow>
         (case render_list B req rs of
            Inl err \<Rightarrow> Inl err
          | Inr ts \<Rightarrow> Inr (t @ line_break @ ts)))"

text \<open>Modelled from the spec (4.1): the contract \<open>Render(request, result)\<close>.\<close>

definition Render :: "'v backends \<Rightarrow> RenderRequest \<Rightarrow> 'v ResultValue \<Rightarrow> error + string" where
  "Render B req res =
     (case check_request B req of
        Some err \<Rightarrow> Inl err
      | None \<Rightarrow>
         (case res of
            Empty \<Rightarrow> Inr []
          | Single r \<Rightarrow> render_record B req r
          | List rs \<Rightarrow> render_list B req rs))"

text \<open>
  Reading a text back as blocks: its lines (\<open>text_lines\<close>), cut at the blank lines.
\<close>

fun split_blocks :: "string list \<Rightarrow> string list \<Rightarrow> string list list" where
  "split_blocks acc [] = (if acc = [] then [] else [acc])"
| "split_blocks acc (l # ls) =
     (if l = [] then acc # split_blocks [] ls else split_blocks (acc @ [l]) ls)"

definition blocks :: "string \<Rightarrow> string list list" where
  "blocks t = split_blocks [] (text_lines [] t)"

text \<open>
  A record that the plain serializer writes as a block: it has a field, and no name
  and no value text holds a line break.
\<close>

definition plain_block_ok :: "('v \<Rightarrow> string) \<Rightarrow> 'v Rec \<Rightarrow> bool" where
  "plain_block_ok vt r =
     (fieldList r \<noteq> [] \<and>
      list_all (\<lambda>f. CHR 0x0A \<notin> set (fst f) \<and> CHR 0x0A \<notin> set (vt (snd f))) (fieldList r))"

text \<open>Three status records and backends to render them with.\<close>

definition status_record :: "string \<Rightarrow> string \<Rightarrow> string Rec" where
  "status_record i c = \<lparr> kind = ''status'', fieldList = [(''id'', i), (''content'', c)] \<rparr>"

definition plain_backends :: "string backends" where
  "plain_backends = \<lparr>
     value_text = (\<lambda>v. v),
     encode_json = (\<lambda>r. Inl (RenderError EncodeError ''no encoder'')),
     encode_yaml = (\<lambda>r. Inl (RenderError EncodeError ''no encoder'')),
     RenderTemplate = (\<lambda>b r c. Inl (RenderError TemplateParseError ''no engine'')),
     read_template = (\<lambda>p. Inl (New ''no such file'')),
     themes = [],
     colorDecision = False \<rparr>"

definition plain_request :: RenderRequest where
  "plain_request = \<lparr> format = ''plain'', templateBody = None, templateFilePath = None,
                      themeName = None, colorMode = ''auto'' \<rparr>"

definition three_statuses :: "string Rec list" where
  "three_statuses =
     [status_record ''1'' ''one'', status_record ''2'' ''two'', status_record ''3'' ''three'']"

section \<open>The theme registry and the command that lists its names\<close>

text \<open>
  Modelled from the spec: the theme registry (section 4.5) is not among the sources.
  Themes are loaded from the built-in set and then from the user's directories; a
  theme loaded later replaces an earlier one of the same name.
\<close>

definition add_theme :: "Theme \<Rightarrow> Theme list \<Rightarrow> Theme list" where
  "add_theme t reg = filter (\<lambda>u. name u \<noteq> name t) reg @ [t]"

definition load_themes :: "Theme list \<Rightarrow> Theme list \<Rightarrow> Theme list" where
  "load_themes builtin user = fold add_theme (builtin @ user) []"

text \<open>
  Modelled from the spec (4.5, 6): \<open>ListNames\<close>, the enumeration of the theme names,
  sorted.
\<close>

definition ListNames :: "Theme list \<Rightarrow> string list" where
  "ListNames reg = sort (map name reg)"

text \<open>
  Modelled from the spec (6): the companion command \<open>config themes\<close> (config.go is
  not among the sources) queries \<open>ListNames\<close> and writes the names on standard
  output. One name per line is assumed here: the specification does not fix the
  layout, and the completion function reads the output as a list of words.
\<close>

definition configThemes_RunE :: "Theme list \<Rightarrow> world \<Rightarrow> outcome \<times> world" where
  "configThemes_RunE reg w =
     (Returned None,
      w\<lparr> stdout := stdout w @ concat (map (\<lambda>n. n @ line_break) (ListNames reg)) \<rparr>)"

text \<open>
  Modelled from the spec (6): the arguments after the program name that select the
  companion command.
\<close>

definition config_command :: "string list \<Rightarrow> (Theme list \<Rightarrow> world \<Rightarrow> outcome \<times> world) option" where
  "config_command argv = (if argv = [''config'', ''themes''] then Some configThemes_RunE else None)"

text \<open>
  The words of a shell command, and the program and arguments it runs: the words
  before the first redirection.
\<close>

fun shell_words :: "string \<Rightarrow> string \<Rightarrow> string list" where
  "shell_words acc [] = (if acc = [] then [] else [acc])"
| "shell_words acc (ch # cs) =
     (if ch = CHR '' '' then (if acc = [] then shell_words [] cs else acc # shell_words [] cs)
      else shell_words (acc @ [ch]) cs)"

definition is_redirection :: "string \<Rightarrow> bool" where
  "is_redirection wd = (CHR ''>'' \<in> set wd \<or> CHR ''<'' \<in> set wd)"

definition shell_argv :: "string \<Rightarrow> string list" where
  "shell_argv l = takeWhile (\<lambda>wd. \<not> is_redirection wd) (shell_words [] l)"

text \<open>Two built-in themes and a user theme that takes the name of one of them.\<close>

definition builtin_themes :: "Theme list" where
  "builtin_themes =
     [ \<lparr> name = ''default'', templatesByKind = [(''status'', ''builtin status'')],
         defaultTemplate = Some ''builtin'' \<rparr>,
       \<lparr> name = ''ansi'', templatesByKind = [], defaultTemplate = Some ''builtin ansi'' \<rparr> ]"

definition user_themes :: "Theme list" where
  "user_themes =
     [ \<lparr> name = ''default'', templatesByKind = [], defaultTemplate = Some ''mine'' \<rparr> ]"


section \<open>Limiting the number of results\<close>

lemma sint_small: "unat (k::64 word) < 2 ^ 63 \<Longrightarrow> sint k = int (unat k)"
proof -
  assume a: "unat k < 2 ^ 63"
  have u: "uint k = int (unat k)" by (rule uint_nat)
  from a have "int (unat k) < 2 ^ 63" by (simp only: of_nat_less_numeral_power_cancel_iff)
  with u have b: "uint k < 2 ^ 63" by (simp only:)
  have c: "- (2 ^ 63) \<le> uint k"
    by (rule order_trans [of _ 0]) simp_all
  have "sint k = signed_take_bit 63 (uint k)" by (simp add: sint_uint)
  also have "\<dots> = uint k" using c b by (rule signed_take_bit_int_eq_self)
  finally have "sint k = uint k" .
  then show ?thesis by (simp only: u)
qed

lemma sint_big: "2 ^ 63 \<le> unat (k::64 word) \<Longrightarrow> sint k < 0"
proof -
  assume a: "2 ^ 63 \<le> unat k"
  have u: "uint k = int (unat k)" by (rule uint_nat)
  from a have "2 ^ 63 \<le> int (unat k)" by (simp only: numeral_power_le_of_nat_cancel_iff)
  with u have b: "2 ^ 63 \<le> uint k" by (simp only:)
  have "sint k = signed_take_bit 63 (uint k)" by (simp add: sint_uint)
  also have "\<dots> \<le> uint k - 2 ^ Suc 63" using b by (rule signed_take_bit_int_less_eq)
  also have "\<dots> < 0" using uint_lt2p [of k] by simp
  finally show ?thesis .
qed

text \<open>
  Below \<open>2^63\<close> the statement does what its flag promises: with \<open>K > 0\<close> and more
  than \<open>K\<close> elements, the first \<open>K\<close> elements stay, in their order; otherwise the
  list is unchanged.
\<close>

lemma keep_results_in_range:
  assumes "slice_ok l" and "unat k < 2 ^ 63"
  shows "\<exists>l'. keep_results k l = Inr l' \<and> slice_ok l' \<and>
           elems l' = (if 0 < unat k \<and> unat k < len l then take (unat k) (elems l) else elems l)"
proof (cases "0 < k \<and> sint k < int (len l)")
  case True
  with assms(2) have "int (unat k) < int (len l)" using sint_small [of k] by simp
  then have lt: "unat k < len l" by (simp only: of_nat_less_iff)
  with assms(1) have le: "unat k \<le> cap l" by (simp add: slice_ok_def)
  from True have pos: "0 < unat k" by (simp add: word_greater_zero_iff unat_gt_0)
  from True le have "keep_results k l = Inr (Slice (arr l) (unat k))"
    by (simp add: keep_results_def slice_to_def)
  moreover have "slice_ok (Slice (arr l) (unat k))"
    using assms(1) le by (simp add: slice_ok_def cap_def)
  moreover have "elems (Slice (arr l) (unat k)) = take (unat k) (elems l)"
    using lt by (simp add: elems_def min_def)
  ultimately show ?thesis using lt pos by simp
next
  case False
  then have r: "keep_results k l = Inr l" by (auto simp: keep_results_def)
  have "sint k = int (unat k)" using assms(2) by (rule sint_small)
  with False have "\<not> (0 < unat k \<and> int (unat k) < int (len l))"
    by (simp add: word_greater_zero_iff unat_gt_0)
  then have "\<not> (0 < unat k \<and> unat k < len l)" unfolding of_nat_less_iff .
  then have "elems l = (if 0 < unat k \<and> unat k < len l then take (unat k) (elems l) else elems l)"
    by auto
  with r assms(1) show ?thesis by blast
qed

text \<open>
  From \<open>2^63\<close> on, \<open>int(opt.keep)\<close> is negative, every length is greater, and the
  slice expression panics, whatever the list.
\<close>

lemma keep_results_overflow:
  assumes "2 ^ 63 \<le> unat k" and "slice_ok l"
  shows "keep_results k l = Inl ''slice bounds out of range''"
proof -
  from assms(1) have neg: "sint k < 0" by (rule sint_big)
  then have lt: "sint k < int (len l)" by linarith
  from assms(1) have "0 < unat k" by (simp add: order_less_le_trans [of 0 "2 ^ 63"])
  then have pos: "0 < k" by (simp add: word_greater_zero_iff unat_gt_0)
  from assms have "\<not> unat k \<le> cap l" by (simp add: slice_ok_def)
  with lt pos show ?thesis by (simp add: keep_results_def slice_to_def)
qed

text \<open>
  Below \<open>2^63\<close>, \<open>timeline\<close> prints the first \<open>K\<close> statuses when there are more than
  \<open>K > 0\<close>, and all of them otherwise.
\<close>

lemma timelineRunE_keeps_first:
  assumes "madonInit e (tn = ''home'' \<or> tn = ''direct'' \<or> take 1 tn = ''!'') = None"
    and "tn = (case as of [] \<Rightarrow> ''home'' | a # _ \<Rightarrow> a)"
    and "GetTimelines c tn (local opt) (onlyMedia opt) (timeline_limOpts opt) = (sl, None)"
    and "slice_ok sl" and "unat (timelineOpts.keep opt) < 2 ^ 63"
  shows "\<exists>sl' w2. timelineRunE e c opt as w = print_result e (StatusList sl') w2
           \<and> elems sl' = (if 0 < unat (timelineOpts.keep opt) \<and> unat (timelineOpts.keep opt) < len sl
                          then take (unat (timelineOpts.keep opt)) (elems sl) else elems sl)"
proof -
  from keep_results_in_range [OF assms(4,5)] obtain sl' where
    k: "keep_results (timelineOpts.keep opt) sl = Inr sl'"
    and e: "elems sl' = (if 0 < unat (timelineOpts.keep opt) \<and> unat (timelineOpts.keep opt) < len sl
                          then take (unat (timelineOpts.keep opt)) (elems sl) else elems sl)"
    by blast
  from assms(1,3) k have "timelineRunE e c opt as w
      = print_result e (StatusList sl')
          (do_call (ReqGetTimelines tn (local opt) (onlyMedia opt) (timeline_limOpts opt))
             (do_call (MadonInit (tn = ''home'' \<or> tn = ''direct'' \<or> take 1 tn = ''!'')) w))"
    unfolding timelineRunE_def Let_def assms(2) [symmetric] by simp
  with e show ?thesis by blast
qed

text \<open>
  C10. The claim: for every \<open>--keep\<close> value \<open>K\<close>, a fetched list with at most \<open>K\<close>
  elements is passed through unchanged to the printer. At \<open>K = 2^63\<close>, a value the
  \<open>uint\<close> flag accepts, the timeline of three statuses and the suggestion list of
  three accounts are not printed: the command panics after the request.
\<close>

theorem keep_overflow_panics:
  "timelineRunE ok_env ok_client (no_timelineOpts\<lparr> timelineOpts.keep := 9223372036854775808 \<rparr>) []
     world0
   = (Panicked ''slice bounds out of range'',
      \<lparr> stdout = [], stderr = [],
        calls = [MadonInit True, ReqGetTimelines ''home'' False False None] \<rparr>)
   \<and> suggestionsGetRunE ok_env ok_client
       (no_suggestionsOpts\<lparr> suggestionsOpts.keep := 9223372036854775808 \<rparr>) world0
   = (Panicked ''slice bounds out of range'',
      \<lparr> stdout = [], stderr = [], calls = [MadonInit True, ReqGetSuggestions None] \<rparr>)"
  by (simp add: timelineRunE_def suggestionsGetRunE_def timeline_limOpts_def no_timelineOpts_def
      no_suggestionsOpts_def ok_env_def ok_client_def world0_def do_call_def keep_results_def
      slice_to_def cap_def)

section \<open>Removing follow suggestions\<close>

lemma suggestionsDelete_loop_nil_err:
  "suggestionsDelete_loop c ids None w =
     (None, w\<lparr> calls := calls w @ map (\<lambda>i. ReqDeleteSuggestion (ActivityID i)) ids \<rparr>)"
  by (induction ids arbitrary: w) (simp_all add: do_call_def Let_def)

text \<open>
  C8. When the account IDs pass the checks of \<open>suggestions delete\<close> and the login
  succeeds, \<open>DeleteSuggestion\<close> is called once for each ID, in order, and the command
  returns \<open>nil\<close> whatever the calls answer: nothing is written on standard error or
  standard output, and the process is not ended with an error status.
\<close>

theorem suggestionsDelete_ignores_api_errors:
  assumes "suggestionsDelete_ids e opt = Inr ids"
    and "madonInit e True = None"
  shows "suggestionsDeleteRunE e c opt w =
           (Returned None,
            w\<lparr> calls := calls w @ MadonInit True
                          # map (\<lambda>i. ReqDeleteSuggestion (ActivityID i)) ids \<rparr>)"
  using assms
  by (simp add: suggestionsDeleteRunE_def Let_def suggestionsDelete_loop_nil_err do_call_def)

theorem suggestionsDelete_ignores_api_errors_witness:
  "suggestionsDelete_ids ok_env (no_suggestionsOpts\<lparr> accountIDs := ''7,8'' \<rparr>) = Inr [''7'', ''8'']
   \<and> madonInit ok_env True = None
   \<and> DeleteSuggestion failing_client (ActivityID ''7'') = Some (Api ''bad request'')
   \<and> suggestionsDeleteRunE ok_env failing_client (no_suggestionsOpts\<lparr> accountIDs := ''7,8'' \<rparr>) world0
     = (Returned None,
        \<lparr> stdout = [], stderr = [],
          calls = [MadonInit True, ReqDeleteSuggestion (ActivityID ''7''),
                   ReqDeleteSuggestion (ActivityID ''8'')] \<rparr>)"
proof -
  have ids: "suggestionsDelete_ids ok_env (no_suggestionsOpts\<lparr> accountIDs := ''7,8'' \<rparr>)
               = Inr [''7'', ''8'']"
    by (simp add: suggestionsDelete_ids_def ok_env_def no_suggestionsOpts_def)
  have login: "madonInit ok_env True = None"
    by (simp add: ok_env_def)
  have api: "DeleteSuggestion failing_client (ActivityID ''7'') = Some (Api ''bad request'')"
    by (simp add: failing_client_def)
  show ?thesis
    using suggestionsDelete_ignores_api_errors [OF ids login, of failing_client world0] ids login api
    by (simp add: world0_def)
qed

section \<open>The visibility of replies\<close>

lemma mentionsList_calls:
  "mentionsList c s w = (r, w1) \<Longrightarrow> calls w1 = calls w @ [ReqGetCurrentAccount]"
  by (auto simp: mentionsList_def do_call_def Let_def split: sum.splits if_splits)

lemma toot_reply_no_post:
  assumes "toot_reply e c opt t w = (r, w1)" and "ReqPostStatus p \<in> set (calls w1)"
  shows "ReqPostStatus p \<in> set (calls w)"
  using assms
  by (auto simp: toot_reply_def do_call_def Let_def
           split: sum.splits if_splits prod.splits dest!: mentionsList_calls)

lemma toot_media_no_post:
  assumes "toot_media e opt ids w = (r, w1)" and "ReqPostStatus p \<in> set (calls w1)"
  shows "ReqPostStatus p \<in> set (calls w)"
  using assms
  by (auto simp: toot_media_def do_call_def Let_def split: sum.splits if_splits)

lemma toot_reply_preserves_visibility:
  assumes "toot_reply e c opt t w = (Inr (vis, text), w1)"
    and "inReplyToID opt \<noteq> []" and "sameVisibility opt"
    and "\<not> tootVisibilityChanged e" and "\<not> statusPostVisibilityChanged e"
  shows "\<exists>orig. GetStatus c (ActivityID (inReplyToID opt)) = Inr orig \<and>
           vis = (if Status.Visibility orig = ''public'' then ''unlisted''
                  else Status.Visibility orig)"
  using assms
  by (auto simp: toot_reply_def Let_def split: sum.splits if_splits prod.splits)

text \<open>
  C9. A reply (\<open>in-reply-to\<close> set) with \<open>--same-visibility\<close> and no \<open>--visibility\<close> on
  the command line: whatever \<open>toot\<close> posts carries the visibility of the original
  status, with \<open>public\<close> replaced by \<open>unlisted\<close>; it is never \<open>public\<close>.
\<close>

theorem reply_inherits_visibility:
  assumes "inReplyToID opt \<noteq> []" and "sameVisibility opt"
    and "\<not> tootVisibilityChanged e" and "\<not> statusPostVisibilityChanged e"
    and "toot e c opt tootText w = (r, w')"
    and "ReqPostStatus p \<in> set (calls w')" and "ReqPostStatus p \<notin> set (calls w)"
  shows "\<exists>orig. GetStatus c (ActivityID (inReplyToID opt)) = Inr orig \<and>
           PostStatusParams.Visibility p =
             (if Status.Visibility orig = ''public'' then ''unlisted'' else Status.Visibility orig) \<and>
           PostStatusParams.Visibility p \<noteq> ''public''"
proof -
  define opt1 where "opt1 = toot_default_visibility e opt"
  have o1: "inReplyToID opt1 = inReplyToID opt" "sameVisibility opt1"
    using assms(2) by (simp_all add: opt1_def toot_default_visibility_def Let_def)
  from assms(5,6,7) obtain ids vis body w1 ids' w2 where
    rep: "toot_reply e c opt1 tootText w = (Inr (vis, body), w1)" and
    med: "toot_media e opt1 ids w1 = (Inr ids', w2)" and
    cl: "calls w' = calls w2 @ [ReqPostStatus \<lparr> Text = body, InReplyTo = inReplyToID opt1,
                                              MediaIDs = ids', Sensitive = sensitive opt1,
                                              SpoilerText = spoiler opt1, Visibility = vis \<rparr>]"
    unfolding toot_def opt1_def [symmetric] Let_def
    by (auto simp: do_call_def split: sum.splits if_splits prod.splits
             dest: toot_reply_no_post toot_media_no_post)
  from assms(7) have "ReqPostStatus p \<notin> set (calls w1)"
    using toot_reply_no_post [OF rep] by blast
  then have "ReqPostStatus p \<notin> set (calls w2)"
    using toot_media_no_post [OF med] by blast
  with assms(6) cl have pv: "PostStatusParams.Visibility p = vis" by auto
  from toot_reply_preserves_visibility [OF rep] o1 assms(1,3,4)
  obtain orig where "GetStatus c (ActivityID (inReplyToID opt)) = Inr orig"
    "vis = (if Status.Visibility orig = ''public'' then ''unlisted'' else Status.Visibility orig)"
    by auto
  with pv show ?thesis by auto
qed

theorem reply_inherits_visibility_witness:
  "inReplyToID reply_opts \<noteq> [] \<and> sameVisibility reply_opts
   \<and> \<not> tootVisibilityChanged (ok_env\<lparr> default_visibility := ''public'' \<rparr>)
   \<and> \<not> statusPostVisibilityChanged (ok_env\<lparr> default_visibility := ''public'' \<rparr>)
   \<and> calls (snd (toot (ok_env\<lparr> default_visibility := ''public'' \<rparr>) ok_client reply_opts
                    ''I agree'' world0))
       = [ReqGetStatus (ActivityID ''42''),
          ReqPostStatus \<lparr> Text = ''I agree'', InReplyTo = ''42'', MediaIDs = [], Sensitive = False,
                          SpoilerText = [], Visibility = ''unlisted'' \<rparr>]
   \<and> GetStatus ok_client (ActivityID ''42'') = Inr public_status
   \<and> Status.Visibility public_status = ''public''"
proof -
  let ?e = "ok_env\<lparr> default_visibility := ''public'' \<rparr>"
  let ?p = "\<lparr> Text = ''I agree'', InReplyTo = ''42'', MediaIDs = [], Sensitive = False,
              SpoilerText = [], Visibility = ''unlisted'' \<rparr>"
  let ?r = "toot ?e ok_client reply_opts ''I agree'' world0"
  have h1: "inReplyToID reply_opts \<noteq> []" and h2: "sameVisibility reply_opts"
    by (simp_all add: reply_opts_def no_statusOpts_def)
  have h3: "\<not> tootVisibilityChanged ?e" and h4: "\<not> statusPostVisibilityChanged ?e"
    by (simp_all add: ok_env_def)
  have h5: "?r = (fst ?r, snd ?r)" by simp
  have run: "calls (snd ?r) = [ReqGetStatus (ActivityID ''42''), ReqPostStatus ?p]"
    by (simp add: toot_def toot_default_visibility_def toot_reply_def toot_media_def reply_opts_def
        no_statusOpts_def ok_env_def ok_client_def public_status_def world0_def do_call_def)
  have h6: "ReqPostStatus ?p \<in> set (calls (snd ?r))" by (simp only: run) simp
  have h7: "ReqPostStatus ?p \<notin> set (calls world0)" by (simp add: world0_def)
  from reply_inherits_visibility [OF h1 h2 h3 h4 h5 h6 h7]
  have "GetStatus ok_client (ActivityID ''42'') = Inr public_status
        \<and> Status.Visibility public_status = ''public''"
    by (simp add: ok_client_def public_status_def reply_opts_def no_statusOpts_def)
  with h1 h2 h3 h4 run show ?thesis by simp
qed

section \<open>Status subcommands without a result object\<close>

lemma status_fetch_obj: "status_fetch r res mk w \<noteq> (Fallthrough None err, w1)"
  by (simp add: status_fetch_def split: sum.splits)

lemma status_accounts_obj: "status_accounts r res k w \<noteq> (Fallthrough None err, w1)"
  by (simp add: status_accounts_def split: sum.splits prod.splits)

lemma status_post_obj: "status_post e c opt as w \<noteq> (Fallthrough None None, w1)"
  by (simp add: status_post_def Let_def split: sum.splits prod.splits)

lemma status_action_world:
  "status_action r err w = (x, w1) \<Longrightarrow> stdout w1 = stdout w \<and> stderr w1 = stderr w"
  by (auto simp: status_action_def do_call_def)


lemma statusSubcommands_cases:
  "subcmd \<in> set statusSubcommands \<Longrightarrow>
     subcmd = ''show'' \<or> subcmd = ''context'' \<or> subcmd = ''card'' \<or> subcmd = ''reblogged-by''
     \<or> subcmd = ''favourited-by'' \<or> subcmd = ''delete'' \<or> subcmd = ''mute-conversation''
     \<or> subcmd = ''unmute-conversation'' \<or> subcmd = ''boost'' \<or> subcmd = ''unboost''
     \<or> subcmd = ''favourite'' \<or> subcmd = ''unfavourite'' \<or> subcmd = ''pin'' \<or> subcmd = ''unpin''
     \<or> subcmd = ''post''"
  by (simp add: statusSubcommands_def)


lemma status_switch_unknown:
  "subcmd \<notin> set statusSubcommands \<Longrightarrow> status_switch e c opt subcmd as w = (InternalError, w)"
  by (simp add: statusSubcommands_def status_switch_def Let_def)


lemma status_switch_no_output:
  assumes "status_switch e c opt subcmd as w = (Fallthrough None None, w1)"
  shows "stdout w1 = stdout w \<and> stderr w1 = stderr w"
proof (cases "subcmd \<in> set statusSubcommands")
  case True
  from statusSubcommands_cases [OF True] assms show ?thesis
    by (elim disjE)
       (simp_all add: status_switch_def Let_def status_fetch_obj status_accounts_obj
          status_post_obj status_action_def do_call_def split: if_splits, auto)
next
  case False
  with assms show ?thesis by (simp add: status_switch_unknown)
qed

lemma status_action_names:
  assumes "subcmd \<in> set [''delete'', ''boost'', ''unboost'', ''favourite'', ''unfavourite'', ''pin'', ''unpin'']"
  shows "(case fst (status_switch e c opt subcmd as w) of
            Fallthrough ob err \<Rightarrow> ob = None | _ \<Rightarrow> False)"
proof -
  from assms have "subcmd = ''delete'' \<or> subcmd = ''boost'' \<or> subcmd = ''unboost''
     \<or> subcmd = ''favourite'' \<or> subcmd = ''unfavourite'' \<or> subcmd = ''pin'' \<or> subcmd = ''unpin''"
    by simp
  then show ?thesis
    by (elim disjE) (simp_all add: status_switch_def Let_def status_action_def)
qed

text \<open>
  C2. When the switch of \<open>statusSubcommandRunE\<close> ends with no result object and no
  error (as the cases delete, boost, unboost, favourite, unfavourite, pin and unpin
  do when the server accepts the request), the command writes nothing and returns
  \<open>nil\<close>, so the process ends with status 0.
\<close>

theorem no_result_object_is_success:
  assumes "status_switch e c opt subcmd as w = (Fallthrough None None, w1)"
  shows "statusSubcommandRunE e c opt subcmd as w = (Returned None, w1)
         \<and> exit_status (fst (statusSubcommandRunE e c opt subcmd as w)) = 0
         \<and> stdout w1 = stdout w \<and> stderr w1 = stderr w"
  using assms status_switch_no_output [OF assms]
  by (simp add: statusSubcommandRunE_def)


section \<open>Running a command\<close>

lemma ancestors_simps:
  "ancestors RootCmd = [RootCmd]"
  "ancestors suggestionsCmd = [suggestionsCmd, RootCmd]"
  "ancestors suggestionsGetSubcommand = [suggestionsGetSubcommand, suggestionsCmd, RootCmd]"
  "ancestors suggestionsDeleteSubcommand = [suggestionsDeleteSubcommand, suggestionsCmd, RootCmd]"
  "ancestors tootAliasCmd = [tootAliasCmd, RootCmd]"
  "ancestors timelineCmd = [timelineCmd, RootCmd]"
  "ancestors statusCmd = [statusCmd, RootCmd]"
  "ancestors (statusSubcommand n) = [statusSubcommand n, statusCmd, RootCmd]"
  by (simp_all add: ancestors.simps)

lemma hooks_to_run_simps:
  "hooks_to_run tr suggestionsCmd = [RootCmd_PersistentPreRunE]"
  "hooks_to_run tr suggestionsGetSubcommand = [RootCmd_PersistentPreRunE]"
  "hooks_to_run tr suggestionsDeleteSubcommand = [RootCmd_PersistentPreRunE]"
  "hooks_to_run tr tootAliasCmd = [RootCmd_PersistentPreRunE]"
  "hooks_to_run tr timelineCmd = [RootCmd_PersistentPreRunE]"
  "hooks_to_run False (statusSubcommand n) = [statusCmd_PersistentPreRunE]"
  "hooks_to_run True (statusSubcommand n) = [RootCmd_PersistentPreRunE, statusCmd_PersistentPreRunE]"
  by (simp_all add: hooks_to_run_def ancestors_simps List.map_filter_def Let_def)

theorem no_result_object_is_success_witness:
  "status_switch ok_env ok_client (optsStatus (status_invocation ''delete'')) ''delete'' []
       (do_call (MadonInit True) world0)
     = (Fallthrough None None,
        \<lparr> stdout = [], stderr = [], calls = [MadonInit True, ReqDeleteStatus (Int64 1)] \<rparr>)
   \<and> statusSubcommandRunE ok_env ok_client (optsStatus (status_invocation ''delete'')) ''delete'' []
       (do_call (MadonInit True) world0)
     = (Returned None,
        \<lparr> stdout = [], stderr = [], calls = [MadonInit True, ReqDeleteStatus (Int64 1)] \<rparr>)
   \<and> Execute False ok_env ok_client (status_invocation ''delete'') world0
     = (Returned None,
        \<lparr> stdout = [], stderr = [], calls = [MadonInit True, ReqDeleteStatus (Int64 1)] \<rparr>)"
proof -
  let ?w = "\<lparr> stdout = [], stderr = [], calls = [MadonInit True, ReqDeleteStatus (Int64 1)] \<rparr>"
  have sw: "status_switch ok_env ok_client (optsStatus (status_invocation ''delete'')) ''delete'' []
              (do_call (MadonInit True) world0) = (Fallthrough None None, ?w)"
    by (simp add: status_switch_def status_action_def status_invocation_def invoke_def
        no_statusOpts_def ok_client_def do_call_def world0_def Let_def)
  have run: "statusSubcommandRunE ok_env ok_client (optsStatus (status_invocation ''delete''))
               ''delete'' [] (do_call (MadonInit True) world0) = (Returned None, ?w)"
    using no_result_object_is_success [OF sw] by simp
  have "Execute False ok_env ok_client (status_invocation ''delete'') world0 = (Returned None, ?w)"
    using run
    by (simp add: Execute_def cobra_execute_def hooks_to_run_simps RunE_def status_invocation_def
        invoke_def no_statusOpts_def ok_env_def)
  with sw run show ?thesis by simp
qed

section \<open>Validation of the output format\<close>

text \<open>
  A command whose first hook is that of the root command: a refused output format
  ends the run before any other call.
\<close>

lemma root_hook_fails_fast:
  assumes "checkOutputFormat e = Some err" and "Runnable (cmd iv)"
    and "hooks_to_run tr (cmd iv) = RootCmd_PersistentPreRunE # hs"
  shows "Execute tr e c iv w
         = (Exited (- 1), errPrint (error_line err) (do_call CallCheckOutputFormat w))"
  using assms by (simp add: Execute_def cobra_execute_def)

lemma invalid_format_fails_fast:
  assumes "checkOutputFormat e = Some err"
    and "cmd iv \<in> {suggestionsCmd, suggestionsGetSubcommand, suggestionsDeleteSubcommand,
                    tootAliasCmd, timelineCmd}"
  shows "Execute tr e c iv w
         = (Exited (- 1), errPrint (error_line err) (do_call CallCheckOutputFormat w))"
  using assms(2)
  by (auto intro!: root_hook_fails_fast [OF assms(1)] simp: hooks_to_run_simps)

lemma invalid_format_fails_fast_when_traversing:
  assumes "checkOutputFormat e = Some err" and "cmd iv = statusSubcommand n"
  shows "Execute True e c iv w
         = (Exited (- 1), errPrint (error_line err) (do_call CallCheckOutputFormat w))"
  using assms(2) by (auto intro!: root_hook_fails_fast [OF assms(1)] simp: hooks_to_run_simps)

text \<open>
  Under the default hook selection a status subcommand never consults
  \<open>checkOutputFormat\<close>: its run is the same whatever that function would answer.
\<close>

lemma toot_reply_ignores_checkOutputFormat:
  "toot_reply (e\<lparr> checkOutputFormat := x \<rparr>) c opt t w = toot_reply e c opt t w"
  by (simp add: toot_reply_def)

lemma toot_media_ignores_checkOutputFormat:
  "toot_media (e\<lparr> checkOutputFormat := x \<rparr>) opt ids w = toot_media e opt ids w"
  by (simp add: toot_media_def)

lemma toot_default_visibility_ignores_checkOutputFormat:
  "toot_default_visibility (e\<lparr> checkOutputFormat := x \<rparr>) opt = toot_default_visibility e opt"
  by (simp add: toot_default_visibility_def)

lemma env_ignores_checkOutputFormat:
  "splitIDs (e\<lparr> checkOutputFormat := x \<rparr>) = splitIDs e"
  "ReadFile (e\<lparr> checkOutputFormat := x \<rparr>) = ReadFile e"
  "ReadAllStdin (e\<lparr> checkOutputFormat := x \<rparr>) = ReadAllStdin e"
  "madonInit (e\<lparr> checkOutputFormat := x \<rparr>) = madonInit e"
  by simp_all

lemma toot_ignores_checkOutputFormat:
  "toot (e\<lparr> checkOutputFormat := x \<rparr>) c opt t w = toot e c opt t w"
  unfolding toot_def toot_reply_ignores_checkOutputFormat toot_media_ignores_checkOutputFormat
    toot_default_visibility_ignores_checkOutputFormat env_ignores_checkOutputFormat
  by (rule refl)

lemma status_post_ignores_checkOutputFormat:
  "status_post (e\<lparr> checkOutputFormat := x \<rparr>) c opt as w = status_post e c opt as w"
  unfolding status_post_def toot_ignores_checkOutputFormat env_ignores_checkOutputFormat
  by (rule refl)

lemma status_switch_ignores_checkOutputFormat:
  "status_switch (e\<lparr> checkOutputFormat := x \<rparr>) c opt n as w = status_switch e c opt n as w"
  unfolding status_switch_def status_post_ignores_checkOutputFormat by (rule refl)

lemma print_result_ignores_checkOutputFormat:
  "print_result (e\<lparr> checkOutputFormat := x \<rparr>) ob w = print_result e ob w"
  by (simp add: print_result_def)

lemma statusSubcommandRunE_ignores_checkOutputFormat:
  "statusSubcommandRunE (e\<lparr> checkOutputFormat := x \<rparr>) c opt n as w
   = statusSubcommandRunE e c opt n as w"
  unfolding statusSubcommandRunE_def status_switch_ignores_checkOutputFormat
    print_result_ignores_checkOutputFormat
  by (rule refl)

lemma status_hook_ignores_checkOutputFormat:
  "run_hooks [statusCmd_PersistentPreRunE] (e\<lparr> checkOutputFormat := x \<rparr>) iv w
   = run_hooks [statusCmd_PersistentPreRunE] e iv w"
  by (simp split: option.splits)

lemma status_RunE_ignores_checkOutputFormat:
  "cmd iv = statusSubcommand n \<Longrightarrow> RunE (e\<lparr> checkOutputFormat := x \<rparr>) c iv w = RunE e c iv w"
  by (simp add: RunE_def statusSubcommandRunE_ignores_checkOutputFormat)

lemma status_skips_checkOutputFormat:
  assumes "cmd iv = statusSubcommand n"
  shows "Execute False (e\<lparr> checkOutputFormat := x \<rparr>) c iv w = Execute False e c iv w"
proof -
  have h: "hooks_to_run False (cmd iv) = [statusCmd_PersistentPreRunE]"
    using assms by (simp add: hooks_to_run_simps)
  have "cobra_execute False (e\<lparr> checkOutputFormat := x \<rparr>) c iv w = cobra_execute False e c iv w"
    unfolding cobra_execute_def h status_hook_ignores_checkOutputFormat
      status_RunE_ignores_checkOutputFormat [OF assms]
    by (rule refl)
  then show ?thesis by (simp only: Execute_def)
qed

text \<open>
  C1. The claim: with an invalid \<open>--output\<close> value the process exits with a non-zero
  status before any request, for every subcommand, those of \<open>status\<close> included.
  With the hook selection of the library as it is by default, the hook of
  \<open>statusCmd\<close> runs in place of \<open>checkOutputFormat\<close>: \<open>status delete\<close> logs in, sends
  the request and exits with status 0; \<open>status show\<close> sends its request and only
  then fails in \<open>getPrinter\<close>. \<open>timeline\<close>, which has no hook of its own, fails before
  any request.
\<close>

theorem invalid_format_detected_after_requests:
  "checkOutputFormat bad_format_env = Some bad_format
   \<and> Execute False bad_format_env ok_client (status_invocation ''delete'') world0
     = (Returned None,
        \<lparr> stdout = [], stderr = [], calls = [MadonInit True, ReqDeleteStatus (Int64 1)] \<rparr>)
   \<and> Execute False bad_format_env ok_client (status_invocation ''show'') world0
     = (Exited 1,
        \<lparr> stdout = [], stderr = [''Error: output format not supported''],
          calls = [MadonInit True, ReqGetStatus (Int64 1), CallGetPrinter] \<rparr>)
   \<and> Execute False bad_format_env ok_client (invoke timelineCmd) world0
     = (Exited (- 1),
        \<lparr> stdout = [], stderr = [''Error: output format not supported''],
          calls = [CallCheckOutputFormat] \<rparr>)"
  by (simp add: Execute_def cobra_execute_def hooks_to_run_simps RunE_def status_invocation_def
      invoke_def no_statusOpts_def ok_env_def bad_format_env_def bad_format_def
      statusSubcommandRunE_def status_switch_def status_action_def status_fetch_def
      print_result_def errPrint_def error_line_def
      ok_client_def do_call_def world0_def Let_def)

section \<open>Errors of the rendering subsystem\<close>

lemma api_calls_simps [simp]:
  "api_calls []"
  "api_calls (x # xs) = (\<not> is_render_call x \<and> api_calls xs)"
  "api_calls (xs @ ys) = (api_calls xs \<and> api_calls ys)"
  by (auto simp: api_calls_def)


































section \<open>Flags and shell completion\<close>

lemma shellComplFunc_text_lines: "text_lines [] shellComplFunc = shellComplFunc_lines"
  by code_simp



subsection \<open>The theme registry and the completion of theme names\<close>

lemma add_theme_names:
  "name ` set (add_theme t reg) = insert (name t) (name ` set reg)"
  by (auto simp: add_theme_def)

lemma add_theme_distinct:
  "distinct (map name reg) \<Longrightarrow> distinct (map name (add_theme t reg))"
  by (auto simp: add_theme_def distinct_map_filter)

lemma fold_add_theme:
  "distinct (map name reg) \<Longrightarrow>
     distinct (map name (fold add_theme ts reg))
     \<and> name ` set (fold add_theme ts reg) = name ` set ts \<union> name ` set reg"
proof (induction ts arbitrary: reg)
  case Nil
  then show ?case by simp
next
  case (Cons t ts)
  from Cons.IH [OF add_theme_distinct [OF Cons.prems], of t]
  show ?case by (auto simp: add_theme_names)
qed

lemma load_themes_names:
  "distinct (map name (load_themes builtin user))"
  "name ` set (load_themes builtin user) = name ` set (builtin @ user)"
  using fold_add_theme [of "[]" "builtin @ user"] by (simp_all add: load_themes_def)

lemma ListNames_load_themes:
  "sorted (ListNames (load_themes builtin user))"
  "distinct (ListNames (load_themes builtin user))"
  "set (ListNames (load_themes builtin user)) = name ` set (builtin @ user)"
  using load_themes_names [of builtin user] by (simp_all add: ListNames_def)

text \<open>A theme loaded later takes the place of an earlier one of the same name.\<close>

lemma add_theme_find:
  "find (\<lambda>u. name u = n) (add_theme t reg)
     = (if name t = n then Some t else find (\<lambda>u. name u = n) reg)"
proof (induction reg)
  case Nil
  then show ?case by (simp add: add_theme_def)
next
  case (Cons a reg)
  then show ?case by (auto simp: add_theme_def)
qed

lemma find_app:
  "find P (xs @ ys) = (case find P xs of Some x \<Rightarrow> Some x | None \<Rightarrow> find P ys)"
  by (induction xs) simp_all

lemma fold_add_theme_find:
  "find (\<lambda>u. name u = n) (fold add_theme ts reg)
     = (case find (\<lambda>u. name u = n) (rev ts) of
          Some t \<Rightarrow> Some t
        | None \<Rightarrow> find (\<lambda>u. name u = n) reg)"
proof (induction ts arbitrary: reg)
  case Nil
  then show ?case by simp
next
  case (Cons t ts)
  show ?case
    by (simp add: Cons.IH add_theme_find find_app split: option.splits)
qed

lemma user_theme_shadows_builtin:
  "find (\<lambda>u. name u = n) (rev user) = Some t \<Longrightarrow> Resolve (load_themes builtin user) n = Inr t"
  by (simp add: Resolve_def load_themes_def fold_add_theme_find find_app)

lemma shell_argv_config_themes:
  "map_option (\<lambda>b. map shell_argv (List.map_filter command_substitution b))
       (shell_function ''__madonctl_theme'' (text_lines [] shellComplFunc))
     = Some [[AppName, ''config'', ''themes''],
             [''compgen'', ''-W'', DQ @ ''${out[*]}'' @ DQ, ''--'', DQ @ ''$cur'' @ DQ]]"
  by (simp add: shellComplFunc_text_lines shellComplFunc_lines_def TAB_def DQ_def AppName_def
      command_substitution_def List.map_filter_def shell_argv_def is_redirection_def)

text \<open>
  C7. The theme names are listed by the companion command \<open>config themes\<close>: it
  writes \<open>ListNames\<close> of the loaded themes, one name per line, sorted, each name
  once, the names of all built-in and user themes; and it returns \<open>nil\<close>. The
  completion function registered for the flag \<open>--theme\<close> is \<open>__madonctl_theme\<close>;
  the body of that function in \<open>shellComplFunc\<close> fills \<open>COMPREPLY\<close> from the output
  of the command \<open>madonctl config themes\<close>: its command substitutions are that
  command, assigned to \<open>out\<close>, and \<open>compgen\<close> over the words of \<open>out\<close>; and the
  arguments \<open>config themes\<close> it passes to the program select that companion
  command.
\<close>

theorem theme_completion_runs_config_themes:
  "map_option (\<lambda>f. map_of (Annotations f) BashCompCustom) (Lookup RootCmd_PersistentFlags ''theme'')
     = Some (Some [''__madonctl_theme''])
   \<and> map_option (List.map_filter command_substitution)
       (shell_function ''__madonctl_theme'' (text_lines [] shellComplFunc))
     = Some [''madonctl config themes 2>/dev/null'',
             '' compgen -W '' @ DQ @ ''${out[*]}'' @ DQ @ '' -- '' @ DQ @ ''$cur'' @ DQ @ '' '']
   \<and> map_option (\<lambda>b. map shell_argv (List.map_filter command_substitution b))
       (shell_function ''__madonctl_theme'' (text_lines [] shellComplFunc))
     = Some [[AppName, ''config'', ''themes''],
             [''compgen'', ''-W'', DQ @ ''${out[*]}'' @ DQ, ''--'', DQ @ ''$cur'' @ DQ]]
   \<and> config_command [''config'', ''themes''] = Some configThemes_RunE
   \<and> configThemes_RunE (load_themes builtin user) w
     = (Returned None,
        w\<lparr> stdout := stdout w
             @ concat (map (\<lambda>n. n @ line_break) (ListNames (load_themes builtin user))) \<rparr>)
   \<and> sorted (ListNames (load_themes builtin user))
   \<and> distinct (ListNames (load_themes builtin user))
   \<and> set (ListNames (load_themes builtin user)) = name ` set (builtin @ user)"
proof -
  have a: "map_option (\<lambda>f. map_of (Annotations f) BashCompCustom)
             (Lookup RootCmd_PersistentFlags ''theme'') = Some (Some [''__madonctl_theme''])"
    by (simp add: RootCmd_PersistentFlags_def StringVar_def StringVarP_def BoolVarP_def
        BashCompCustom_def)
  have b: "map_option (List.map_filter command_substitution)
             (shell_function ''__madonctl_theme'' (text_lines [] shellComplFunc))
           = Some [''madonctl config themes 2>/dev/null'',
                   '' compgen -W '' @ DQ @ ''${out[*]}'' @ DQ @ '' -- '' @ DQ @ ''$cur'' @ DQ @ '' '']"
    by (simp add: shellComplFunc_text_lines shellComplFunc_lines_def TAB_def DQ_def
        command_substitution_def List.map_filter_def)
  have c: "config_command [''config'', ''themes''] = Some configThemes_RunE"
    by (simp add: config_command_def)
  have d: "configThemes_RunE (load_themes builtin user) w
     = (Returned None,
        w\<lparr> stdout := stdout w
             @ concat (map (\<lambda>n. n @ line_break) (ListNames (load_themes builtin user))) \<rparr>)"
    by (simp add: configThemes_RunE_def)
  from a b shell_argv_config_themes c d ListNames_load_themes [of builtin user]
  show ?thesis by (simp only: simp_thms)
qed

theorem theme_completion_runs_config_themes_witness:
  "configThemes_RunE (load_themes builtin_themes user_themes) world0
     = (Returned None,
        \<lparr> stdout = ''ansi'' @ line_break @ ''default'' @ line_break, stderr = [], calls = [] \<rparr>)
   \<and> ListNames (load_themes builtin_themes user_themes) = [''ansi'', ''default'']
   \<and> Resolve (load_themes builtin_themes user_themes) ''default''
     = Inr \<lparr> name = ''default'', templatesByKind = [], defaultTemplate = Some ''mine'' \<rparr>"
proof -
  have n: "ListNames (load_themes builtin_themes user_themes) = [''ansi'', ''default'']"
    by code_simp
  have r: "Resolve (load_themes builtin_themes user_themes) ''default''
     = Inr \<lparr> name = ''default'', templatesByKind = [], defaultTemplate = Some ''mine'' \<rparr>"
    by (rule user_theme_shadows_builtin) (simp add: user_themes_def)
  from theme_completion_runs_config_themes [of builtin_themes user_themes world0]
  have "configThemes_RunE (load_themes builtin_themes user_themes) world0
     = (Returned None,
        world0\<lparr> stdout := stdout world0
             @ concat (map (\<lambda>n. n @ line_break)
                 (ListNames (load_themes builtin_themes user_themes))) \<rparr>)"
    by (simp only: simp_thms)
  with n r show ?thesis by (simp add: world0_def)
qed

section \<open>Rendering of lists\<close>

lemma render_list_Inr:
  "map (render_record B req) rs = map Inr ts \<Longrightarrow> render_list B req rs = Inr (Join ts line_break)"
proof (induction B req rs arbitrary: ts rule: render_list.induct)
  case (1 B req)
  then show ?case by simp
next
  case (2 B req r)
  then show ?case by (cases ts) auto
next
  case (3 B req r v va)
  from "3.prems" obtain t ts' where ts: "ts = t # ts'" and t: "render_record B req r = Inr t"
    and rest: "map (render_record B req) (v # va) = map Inr ts'"
    by (cases ts) auto
  from rest obtain t' ts'' where ts': "ts' = t' # ts''" by (cases ts') auto
  from "3.IH" [OF t rest] have "render_list B req (v # va) = Inr (Join ts' line_break)" .
  with t ts ts' show ?case by simp
qed

lemma render_list_texts:
  "render_list B req rs = Inr out \<Longrightarrow>
     \<exists>ts. map (render_record B req) rs = map Inr ts \<and> out = Join ts line_break"
proof (induction B req rs arbitrary: out rule: render_list.induct)
  case (1 B req)
  then show ?case by simp
next
  case (2 B req r)
  then have "map (render_record B req) [r] = map Inr [out] \<and> out = Join [out] line_break" by simp
  then show ?case by blast
next
  case (3 B req r v va)
  from "3.prems" obtain t ts0 where t: "render_record B req r = Inr t"
    and r: "render_list B req (v # va) = Inr ts0" and out: "out = t @ line_break @ ts0"
    by (auto split: sum.splits)
  from "3.IH" [OF t r] obtain ts where ts: "map (render_record B req) (v # va) = map Inr ts"
    "ts0 = Join ts line_break" by blast
  from ts(1) obtain t' ts' where "ts = t' # ts'" by (cases ts) auto
  with t ts out have "map (render_record B req) (r # v # va) = map Inr (t # ts)
     \<and> out = Join (t # ts) line_break" by simp
  then show ?case by blast
qed

lemma text_lines_line:
  "CHR 0x0A \<notin> set l \<Longrightarrow> text_lines acc (l @ CHR 0x0A # rest) = (acc @ l) # text_lines [] rest"
  by (induction l arbitrary: acc) auto

lemma text_lines_block:
  "list_all (\<lambda>l. CHR 0x0A \<notin> set l) ls \<Longrightarrow>
     text_lines [] (concat (map (\<lambda>l. l @ line_break) ls) @ rest) = ls @ text_lines [] rest"
proof (induction ls)
  case Nil
  then show ?case by simp
next
  case (Cons l ls)
  then have "text_lines [] (l @ CHR 0x0A # (concat (map (\<lambda>l. l @ line_break) ls) @ rest))
             = ([] @ l) # text_lines [] (concat (map (\<lambda>l. l @ line_break) ls) @ rest)"
    by (intro text_lines_line) simp
  with Cons show ?case by (simp add: line_break_def)
qed

lemma split_blocks_block:
  "list_all (\<lambda>l. l \<noteq> []) ls \<Longrightarrow> split_blocks acc (ls @ [] # rest) = (acc @ ls) # split_blocks [] rest"
  by (induction ls arbitrary: acc) auto

lemma split_blocks_last:
  "list_all (\<lambda>l. l \<noteq> []) ls \<Longrightarrow> acc @ ls \<noteq> [] \<Longrightarrow> split_blocks acc ls = [acc @ ls]"
  by (induction ls arbitrary: acc) auto

lemma plain_record_lines:
  "plain_record vt r = concat (map (\<lambda>l. l @ line_break) (map (plain_line vt) (fieldList r)))"
  by (simp add: plain_record_def comp_def)

lemma plain_lines_ok:
  assumes "plain_block_ok vt r"
  shows "map (plain_line vt) (fieldList r) \<noteq> []"
    and "list_all (\<lambda>l. l \<noteq> []) (map (plain_line vt) (fieldList r))"
    and "list_all (\<lambda>l. CHR 0x0A \<notin> set l) (map (plain_line vt) (fieldList r))"
  using assms
  by (auto simp: plain_block_ok_def plain_line_def list_all_iff)

lemma blocks_of_plain_list:
  "list_all (plain_block_ok vt) rs \<Longrightarrow>
     blocks (Join (map (plain_record vt) rs) line_break)
       = map (\<lambda>r. map (plain_line vt) (fieldList r)) rs"
proof (induction rs rule: induct_list012)
  case 1
  then show ?case by (simp add: blocks_def)
next
  case (2 r)
  then have ok: "plain_block_ok vt r" by simp
  let ?ls = "map (plain_line vt) (fieldList r)"
  have "text_lines [] (concat (map (\<lambda>l. l @ line_break) ?ls) @ []) = ?ls @ text_lines [] []"
    using plain_lines_ok(3) [OF ok] by (rule text_lines_block)
  then have "text_lines [] (plain_record vt r) = ?ls" by (simp add: plain_record_lines)
  moreover have "split_blocks [] ?ls = [[] @ ?ls]"
    using plain_lines_ok(2,1) [OF ok] by (intro split_blocks_last) simp_all
  ultimately show ?case by (simp add: blocks_def)
next
  case (3 r r' rs)
  then have ok: "plain_block_ok vt r" and rest: "list_all (plain_block_ok vt) (r' # rs)"
    by simp_all
  let ?ls = "map (plain_line vt) (fieldList r)"
  let ?J = "Join (map (plain_record vt) (r' # rs)) line_break"
  have J: "Join (map (plain_record vt) (r # r' # rs)) line_break
           = concat (map (\<lambda>l. l @ line_break) ?ls) @ (CHR 0x0A # ?J)"
    by (simp add: plain_record_lines line_break_def)
  have "text_lines [] (concat (map (\<lambda>l. l @ line_break) ?ls) @ (CHR 0x0A # ?J))
        = ?ls @ text_lines [] (CHR 0x0A # ?J)"
    using plain_lines_ok(3) [OF ok] by (rule text_lines_block)
  also have "\<dots> = ?ls @ [] # text_lines [] ?J" by simp
  finally have tl: "text_lines [] (Join (map (plain_record vt) (r # r' # rs)) line_break)
                    = ?ls @ [] # text_lines [] ?J"
    by (simp only: J)
  have "split_blocks [] (?ls @ [] # text_lines [] ?J) = ([] @ ?ls) # split_blocks [] (text_lines [] ?J)"
    using plain_lines_ok(2) [OF ok] by (rule split_blocks_block)
  with tl have "blocks (Join (map (plain_record vt) (r # r' # rs)) line_break)
                = ?ls # blocks ?J"
    by (simp add: blocks_def)
  with "3.IH"(2) [OF rest] show ?case by simp
qed

lemma render_list_plain:
  "format req = ''plain'' \<Longrightarrow>
     render_list B req rs = Inr (Join (map (plain_record (value_text B)) rs) line_break)"
  by (rule render_list_Inr) (simp add: render_record_def)

text \<open>
  C5. For a request that passes the configuration checks: a list renders to a text
  exactly when every element renders, each on its own against the same request,
  and the text is the elements' texts in the order of the list with one line break
  between two of them. With the format \<open>plain\<close>, and records that have a field and
  hold no line break, reading the text back as blocks separated by blank lines
  gives one block for each record, in the order of the list, whose lines are the
  \<open>key: value\<close> lines of the record; so three status records give three blocks.
\<close>

theorem list_rendering:
  assumes "check_request B req = None"
  shows "(Render B req (List rs) = Inr out \<longleftrightarrow>
           (\<exists>ts. map (render_record B req) rs = map Inr ts \<and> out = Join ts line_break))
       \<and> (format req = ''plain'' \<and> list_all (plain_block_ok (value_text B)) rs \<longrightarrow>
           (\<exists>t. Render B req (List rs) = Inr t
                \<and> blocks t = map (\<lambda>r. map (plain_line (value_text B)) (fieldList r)) rs
                \<and> length (blocks t) = length rs))"
proof (intro conjI impI)
  show "Render B req (List rs) = Inr out \<longleftrightarrow>
           (\<exists>ts. map (render_record B req) rs = map Inr ts \<and> out = Join ts line_break)"
    using assms render_list_texts [of B req rs out] render_list_Inr [of B req rs]
    by (auto simp: Render_def)
next
  assume a: "format req = ''plain'' \<and> list_all (plain_block_ok (value_text B)) rs"
  let ?t = "Join (map (plain_record (value_text B)) rs) line_break"
  from a assms have "Render B req (List rs) = Inr ?t"
    by (simp add: Render_def render_list_plain)
  moreover from a have "blocks ?t = map (\<lambda>r. map (plain_line (value_text B)) (fieldList r)) rs"
    by (simp add: blocks_of_plain_list)
  ultimately show "\<exists>t. Render B req (List rs) = Inr t
                \<and> blocks t = map (\<lambda>r. map (plain_line (value_text B)) (fieldList r)) rs
                \<and> length (blocks t) = length rs"
    by simp
qed

theorem list_rendering_witness:
  "check_request plain_backends plain_request = None
   \<and> format plain_request = ''plain''
   \<and> list_all (plain_block_ok (value_text plain_backends)) three_statuses
   \<and> Render plain_backends plain_request (List three_statuses)
       = Inr (''id: 1'' @ line_break @ ''content: one'' @ line_break @ line_break
              @ ''id: 2'' @ line_break @ ''content: two'' @ line_break @ line_break
              @ ''id: 3'' @ line_break @ ''content: three'' @ line_break)
   \<and> blocks (''id: 1'' @ line_break @ ''content: one'' @ line_break @ line_break
              @ ''id: 2'' @ line_break @ ''content: two'' @ line_break @ line_break
              @ ''id: 3'' @ line_break @ ''content: three'' @ line_break)
       = [[''id: 1'', ''content: one''], [''id: 2'', ''content: two''],
          [''id: 3'', ''content: three'']]"
proof -
  let ?t = "''id: 1'' @ line_break @ ''content: one'' @ line_break @ line_break
              @ ''id: 2'' @ line_break @ ''content: two'' @ line_break @ line_break
              @ ''id: 3'' @ line_break @ ''content: three'' @ line_break"
  have h0: "check_request plain_backends plain_request = None"
    by (simp add: check_request_def plain_request_def)
  have h1: "format plain_request = ''plain''"
    by (simp add: plain_request_def)
  have h2: "list_all (plain_block_ok (value_text plain_backends)) three_statuses"
    by (simp add: plain_block_ok_def plain_backends_def three_statuses_def status_record_def)
  have "render_list plain_backends plain_request three_statuses = Inr ?t"
    by (simp add: render_record_def h1 plain_record_def plain_line_def
        plain_backends_def three_statuses_def status_record_def line_break_def)
  then have ev: "Render plain_backends plain_request (List three_statuses) = Inr ?t"
    by (simp only: Render_def h0 option.case ResultValue.case)
  from list_rendering [OF h0, of three_statuses ?t] h1 h2 ev
  have "blocks ?t = map (\<lambda>r. map (plain_line (value_text plain_backends)) (fieldList r)) three_statuses"
    by simp
  then have "blocks ?t = [[''id: 1'', ''content: one''], [''id: 2'', ''content: two''],
          [''id: 3'', ''content: three'']]"
    by (simp add: plain_line_def plain_backends_def three_statuses_def status_record_def)
  with h0 h1 h2 ev show ?thesis by (simp only: simp_thms)
qed

end
